theory Spec2Isabelle
  imports Main "HOL-Library.Char_ord" "HOL-Library.List_Lexorder"
begin

section \<open>Strings\<close>

text \<open>
  JavaScript strings are modelled as \<^typ>\<open>string\<close> (lists of characters). Splitting,
  joining and suffixes are defined here. Case folding and trimming follow the Unicode
  tables of the runtime; they are not defined here but taken from the environment of a
  run. The two marks the program prints are given by their UTF-8 bytes.
\<close>

definition cross :: string where
  "cross = [CHR 0xE2, CHR 0x9C, CHR 0x97]"

definition tick :: string where
  "tick = [CHR 0xE2, CHR 0x9C, CHR 0x93]"

definition quote :: string where
  "quote = [CHR 0x27]"

text \<open>\<open>s.split(c)\<close> for a one-character separator: never the empty list.\<close>

fun split_on :: "char \<Rightarrow> string \<Rightarrow> string list" where
  "split_on c [] = [[]]"
| "split_on c (x # xs) =
     (if x = c then [] # split_on c xs
      else (case split_on c xs of
              [] \<Rightarrow> [[x]]
            | y # ys \<Rightarrow> (x # y) # ys))"

text \<open>\<open>parts.join(sep)\<close>.\<close>

fun join_with :: "string \<Rightarrow> string list \<Rightarrow> string" where
  "join_with sep [] = []"
| "join_with sep [x] = x"
| "join_with sep (x # y # ys) = x @ sep @ join_with sep (y # ys)"

text \<open>\<open>s.endsWith(suf)\<close>, and \<open>s.replace(/suf$/, '')\<close> for a literal suffix.\<close>

definition ends_with :: "string \<Rightarrow> string \<Rightarrow> bool" where
  "ends_with s suf = (length suf \<le> length s \<and> drop (length s - length suf) s = suf)"

definition strip_suffix :: "string \<Rightarrow> string \<Rightarrow> string" where
  "strip_suffix suf s = (if ends_with s suf then take (length s - length suf) s else s)"

section \<open>Paths\<close>

text \<open>
  \<open>join\<close> is \<open>path.join\<close> of the runtime (POSIX flavour): the non-empty arguments are
  glued with \<open>/\<close> and the result is normalised. Normalisation drops empty and \<open>.\<close>
  segments, lets \<open>..\<close> remove the segment before it (and keeps a leading \<open>..\<close> only on a
  relative path), and keeps a leading and a trailing separator.
\<close>

fun normalizeString :: "bool \<Rightarrow> string list \<Rightarrow> string list \<Rightarrow> string list" where
  "normalizeString allowAboveRoot res [] = rev res"
| "normalizeString allowAboveRoot res (seg # segs) =
     (if seg = [] \<or> seg = ''.'' then normalizeString allowAboveRoot res segs
      else if seg = ''..'' then
        (case res of
           [] \<Rightarrow> normalizeString allowAboveRoot (if allowAboveRoot then [''..''] else []) segs
         | lastSeg # below \<Rightarrow>
             if lastSeg \<noteq> ''..'' then normalizeString allowAboveRoot below segs
             else normalizeString allowAboveRoot
                    (if allowAboveRoot then ''..'' # res else res) segs)
      else normalizeString allowAboveRoot (seg # res) segs)"

definition normalize :: "string \<Rightarrow> string" where
  "normalize path =
     (if path = [] then ''.''
      else
        let isAbsolute = (hd path = CHR ''/'');
            trailingSeparator = (last path = CHR ''/'');
            p = join_with ''/'' (normalizeString (\<not> isAbsolute) [] (split_on CHR ''/'' path))
        in if p = [] then (if isAbsolute then ''/'' else if trailingSeparator then ''./'' else ''.'')
           else (if isAbsolute then ''/'' else []) @ p @ (if trailingSeparator then ''/'' else []))"

definition path_join :: "string list \<Rightarrow> string" where
  "path_join args =
     (let joined = filter (\<lambda>a. a \<noteq> []) args
      in if joined = [] then ''.'' else normalize (join_with ''/'' joined))"

section \<open>Values read from a configuration resource\<close>

text \<open>
  A parsed JSON document. The program never computes with a number it reads; it can only
  interpolate it into a string, so a number is carried as its rendering. An object is
  the list of its members, one for each key, looked up by key.
\<close>

datatype json =
    JNull
  | JBool bool
  | JNum string
  | JStr string
  | JArr "json list"
  | JObj "(string \<times> json) list"

text \<open>\<open>v.k\<close> on a value that is not \<open>null\<close>: \<open>None\<close> is \<open>undefined\<close>.\<close>

fun property :: "json \<Rightarrow> string \<Rightarrow> json option" where
  "property (JObj members) k = map_of members k"
| "property v k = None"

text \<open>\<open>a ?? b\<close>: the right operand exactly when the left one is \<open>undefined\<close> or \<open>null\<close>.\<close>

fun nullish :: "json option \<Rightarrow> json \<Rightarrow> json" where
  "nullish None d = d"
| "nullish (Some JNull) d = d"
| "nullish (Some v) d = v"

text \<open>What a template literal makes of a value.\<close>

fun js_string :: "json \<Rightarrow> string" where
  "js_string JNull = ''null''"
| "js_string (JBool b) = (if b then ''true'' else ''false'')"
| "js_string (JNum r) = r"
| "js_string (JStr s) = s"
| "js_string (JArr xs) = join_with '','' (map (\<lambda>x. if x = JNull then [] else js_string x) xs)"
| "js_string (JObj members) = ''[object Object]''"

section \<open>The environment of one invocation\<close>

text \<open>
  Everything the program asks of the outside world during one run: the working and home
  directories, the file system as the runtime's file API answers, the URL parser, the
  version-control tool and the terminal. An \<open>Inl\<close> carries the rendering of the error a
  call throws. \<open>toLowerCase\<close> and \<open>trim\<close> are the string methods of the runtime, whatever
  they do to each string.
\<close>

record env =
  cwd :: string
  homedir :: string
  file_exists :: "string \<Rightarrow> bool"
  file_text :: "string \<Rightarrow> string + string"
  file_json :: "string \<Rightarrow> json option"
  write_error :: "string \<Rightarrow> string option"
  scan_dir :: "string \<Rightarrow> string list option"
  glob_files :: "string \<Rightarrow> string \<Rightarrow> string + string list"
  url_pathname :: "string \<Rightarrow> string option"
  git_origin :: "string \<Rightarrow> string + string"
  git_pull :: "string \<Rightarrow> string option"
  git_clone :: "string \<Rightarrow> string \<Rightarrow> string option"
  prompt_reply :: "string \<Rightarrow> string option"
  type_error :: "json \<Rightarrow> string"
  toLowerCase :: "string \<Rightarrow> string"
  trim :: "string \<Rightarrow> string"

text \<open>What a run does, in order, and the status it ends with.\<close>

datatype effect =
    Log string
  | LogError string
  | ContentRecord string
  | ErrorRecord string
  | Prompt string
  | WriteFile string string
  | GitPull string
  | GitClone string string
  | Uncaught string

type_synonym outcome = "effect list \<times> nat"

section \<open>Pool configuration (config.ts)\<close>

record BuddyConfig =
  agents :: json
  commands :: json
  context' :: json
  extension :: "json option"
  pools :: "json option"

text \<open>The constructor: a parameter that is \<open>undefined\<close> takes its default.\<close>

definition BuddyConfig_ctor ::
  "json option \<Rightarrow> json option \<Rightarrow> json option \<Rightarrow> json option \<Rightarrow> json option \<Rightarrow> BuddyConfig" where
  "BuddyConfig_ctor a c x e p =
     \<lparr> agents = (case a of None \<Rightarrow> JStr [] | Some v \<Rightarrow> v),
       commands = (case c of None \<Rightarrow> JStr ''commands'' | Some v \<Rightarrow> v),
       context' = (case x of None \<Rightarrow> JStr ''shared'' | Some v \<Rightarrow> v),
       extension = e,
       pools = p \<rparr>"

definition BuddyConfig_new :: BuddyConfig where
  "BuddyConfig_new = BuddyConfig_ctor None None None None None"

text \<open>
  \<open>loadBuddyConfigFrom\<close>. Everything after the path is computed sits in the \<open>try\<close>
  block: a resource that does not parse, and the property access on a document that is
  \<open>null\<close>, both end in the \<open>catch\<close> and so in the default configuration.
\<close>

definition loadBuddyConfigFrom :: "env \<Rightarrow> string \<Rightarrow> BuddyConfig" where
  "loadBuddyConfigFrom e dirPath =
     (let configPath = path_join [dirPath, ''.buddy'', ''config.json'']
      in if file_exists e configPath then
           (case file_json e configPath of
              None \<Rightarrow> BuddyConfig_new
            | Some JNull \<Rightarrow> BuddyConfig_new
            | Some configData \<Rightarrow>
                BuddyConfig_ctor
                  (Some (nullish (property configData ''agents'') (JStr [])))
                  (Some (nullish (property configData ''commands'') (JStr ''commands'')))
                  (Some (nullish (property configData ''context'') (JStr ''shared'')))
                  (property configData ''extension'')
                  (property configData ''pools''))
         else BuddyConfig_new)"

section \<open>Locating an artifact\<close>

text \<open>
  \<open>findAgentFile\<close>. Besides the path it returns, the model keeps the list of the paths
  whose existence was asked of the file system, in the order they were asked.
\<close>

definition findAgentFile ::
  "env \<Rightarrow> string \<Rightarrow> string \<Rightarrow> string option \<Rightarrow> string list \<times> string option" where
  "findAgentFile e basePath agentPath ext =
     (case ext of
        Some x \<Rightarrow>
          (let withExt = basePath @ ''/'' @ agentPath @ ''.'' @ x
           in if file_exists e withExt then ([withExt], Some withExt)
              else
                let noExt = basePath @ ''/'' @ agentPath
                in if file_exists e noExt then ([withExt, noExt], Some noExt)
                   else ([withExt, noExt], None))
      | None \<Rightarrow>
          (let withMd = basePath @ ''/'' @ agentPath @ ''.md''
           in if file_exists e withMd then ([withMd], Some withMd)
              else
                let withTxt = basePath @ ''/'' @ agentPath @ ''.txt''
                in if file_exists e withTxt then ([withMd, withTxt], Some withTxt)
                   else
                     let noExt = basePath @ ''/'' @ agentPath
                     in if file_exists e noExt then ([withMd, withTxt, noExt], Some noExt)
                        else ([withMd, withTxt, noExt], None)))"

text \<open>
  The candidate list as the specification words it: the configured extension and then
  no extension, or \<open>.md\<close>, \<open>.txt\<close> and then no extension.
\<close>

definition spec_candidates :: "string \<Rightarrow> string \<Rightarrow> string option \<Rightarrow> string list" where
  "spec_candidates base path ext =
     (case ext of
        Some x \<Rightarrow> [base @ ''/'' @ path @ ''.'' @ x, base @ ''/'' @ path]
      | None \<Rightarrow> [base @ ''/'' @ path @ ''.md'', base @ ''/'' @ path @ ''.txt'', base @ ''/'' @ path])"

text \<open>Asking the candidates in order and stopping at the first that exists.\<close>

fun spec_probe :: "(string \<Rightarrow> bool) \<Rightarrow> string list \<Rightarrow> string list \<times> string option" where
  "spec_probe ex [] = ([], None)"
| "spec_probe ex (c # cs) =
     (if ex c then ([c], Some c)
      else (case spec_probe ex cs of (asked, r) \<Rightarrow> (c # asked, r)))"

section \<open>Symbolic references\<close>

text \<open>\<open>x || d\<close> for a string that may be \<open>undefined\<close>: the empty string is falsy too.\<close>

fun or_else :: "string option \<Rightarrow> string \<Rightarrow> string" where
  "or_else None d = d"
| "or_else (Some s) d = (if s = [] then d else s)"

text \<open>\<open>xs[0]\<close> and \<open>xs[xs.length - 1]\<close>: \<open>undefined\<close> out of range.\<close>

fun first_opt :: "'a list \<Rightarrow> 'a option" where
  "first_opt [] = None"
| "first_opt (x # xs) = Some x"

definition last_opt :: "'a list \<Rightarrow> 'a option" where
  "last_opt xs = first_opt (rev xs)"

record parsed =
  repoName :: string
  agentPath :: string
  filename :: string

definition parseImportSource :: "string \<Rightarrow> parsed" where
  "parseImportSource source =
     (let parts = split_on CHR ''/'' source
      in \<lparr> repoName = or_else (first_opt parts) ''unknown-repo'',
           agentPath = join_with ''/'' (tl parts),
           filename = or_else (last_opt parts) ''unknown-agent'' \<rparr>)"

section \<open>Path management\<close>

definition getBuddyBasePath :: "env \<Rightarrow> string option \<Rightarrow> string" where
  "getBuddyBasePath e customPath =
     (case customPath of
        Some p \<Rightarrow> if p \<noteq> [] then p else path_join [homedir e, ''.buddy'']
      | None \<Rightarrow> path_join [homedir e, ''.buddy''])"

record add_paths =
  localAgentsPath :: string
  claudeSourcePath :: string
  buddyDestPath :: string

definition getAddPaths :: "env \<Rightarrow> string \<Rightarrow> string option \<Rightarrow> add_paths" where
  "getAddPaths e agentName basePath =
     (let buddyPath = getBuddyBasePath e basePath;
          localAgents = path_join [buddyPath, ''pools'', ''local'']
      in \<lparr> localAgentsPath = localAgents,
           claudeSourcePath = path_join [cwd e, ''.claude'', ''agents'', agentName @ ''.md''],
           buddyDestPath = path_join [localAgents, agentName @ ''.md''] \<rparr>)"

text \<open>The three fields of \<open>AddPathConfig\<close> are passed as arguments.\<close>

definition getAddPathsWithConfig :: "env \<Rightarrow> string \<Rightarrow> string option \<Rightarrow> bool \<Rightarrow> add_paths" where
  "getAddPathsWithConfig e agentName basePath usePersonalClaude =
     (let buddyPath = getBuddyBasePath e basePath;
          localAgents = path_join [buddyPath, ''pools'', ''local'']
      in \<lparr> localAgentsPath = localAgents,
           claudeSourcePath =
             (if usePersonalClaude
              then path_join [homedir e, ''.claude'', ''agents'', agentName @ ''.md'']
              else path_join [cwd e, ''.claude'', ''agents'', agentName @ ''.md'']),
           buddyDestPath = path_join [localAgents, agentName @ ''.md''] \<rparr>)"

definition getRepoPaths :: "env \<Rightarrow> string \<Rightarrow> string option \<Rightarrow> string \<times> string" where
  "getRepoPaths e repo basePath =
     (let buddyPath = getBuddyBasePath e basePath;
          poolsPath = path_join [buddyPath, ''pools''];
          repoPath = path_join [poolsPath, repo]
      in (poolsPath, repoPath))"

record import_paths =
  sourcePath :: "string option"
  destPath :: string
  destLocation :: string
  extension' :: "json option"
  agentsConfigPath :: string

text \<open>
  \<open>getImportPaths\<close>. \<open>join\<close> throws a type error on an argument that is not a string;
  nothing catches it here, so the call as a whole fails with it (\<open>Inl\<close>).
\<close>

definition getImportPaths ::
  "env \<Rightarrow> string \<Rightarrow> string \<Rightarrow> string \<Rightarrow> bool \<Rightarrow> string option \<Rightarrow> string + import_paths" where
  "getImportPaths e repo apath fname toClaudeProject basePath =
     (let buddyPath = getBuddyBasePath e basePath;
          repoPath = path_join [buddyPath, ''pools'', repo];
          repoConfig = loadBuddyConfigFrom e repoPath
      in case agents repoConfig of
           JStr a \<Rightarrow>
             (let agentBasePath = path_join [repoPath, a];
                  buddySourcePath =
                    snd (findAgentFile e agentBasePath apath
                           (map_option js_string (extension repoConfig)))
              in Inr \<lparr> sourcePath = buddySourcePath,
                       destPath =
                         (if toClaudeProject
                          then path_join [cwd e, ''.claude'', ''agents'', fname @ ''.md'']
                          else path_join [cwd e, fname @ ''.md'']),
                       destLocation =
                         (if toClaudeProject then ''.claude/agents/'' else ''current directory''),
                       extension' = extension repoConfig,
                       agentsConfigPath = a \<rparr>)
         | v \<Rightarrow> Inl (type_error e v))"

text \<open>The fields of \<open>ImportPathConfig\<close> are passed as arguments.\<close>

definition getImportPathsWithConfig ::
  "env \<Rightarrow> string \<Rightarrow> string \<Rightarrow> string \<Rightarrow> bool \<Rightarrow> bool \<Rightarrow> string option \<Rightarrow> string + import_paths" where
  "getImportPathsWithConfig e repo apath fname toClaudeProject toClaudePersonal basePath =
     (let buddyPath = getBuddyBasePath e basePath;
          repoPath = path_join [buddyPath, ''pools'', repo];
          repoConfig = loadBuddyConfigFrom e repoPath
      in case agents repoConfig of
           JStr a \<Rightarrow>
             (let agentBasePath = path_join [repoPath, a];
                  buddySourcePath =
                    snd (findAgentFile e agentBasePath apath
                           (map_option js_string (extension repoConfig)))
              in Inr \<lparr> sourcePath = buddySourcePath,
                       destPath =
                         (if toClaudePersonal
                          then path_join [homedir e, ''.claude'', ''agents'', fname @ ''.md'']
                          else if toClaudeProject
                          then path_join [cwd e, ''.claude'', ''agents'', fname @ ''.md'']
                          else path_join [cwd e, fname @ ''.md'']),
                       destLocation =
                         (if toClaudePersonal then ''~/.claude/agents/''
                          else if toClaudeProject then ''.claude/agents/''
                          else ''current directory''),
                       extension' = extension repoConfig,
                       agentsConfigPath = a \<rparr>)
         | v \<Rightarrow> Inl (type_error e v))"

section \<open>File system and terminal utilities\<close>

definition directoryExists :: "env \<Rightarrow> string \<Rightarrow> bool" where
  "directoryExists e path = (case scan_dir e path of None \<Rightarrow> False | Some entries \<Rightarrow> True)"

text \<open>\<open>copyFile\<close>: the write it performs, or the error thrown by the read or the write.\<close>

definition copyFile :: "env \<Rightarrow> string \<Rightarrow> string \<Rightarrow> string + effect list" where
  "copyFile e src target =
     (case file_text e src of
        Inl err \<Rightarrow> Inl err
      | Inr content \<Rightarrow>
          (case write_error e target of
             Some err \<Rightarrow> Inl err
           | None \<Rightarrow> Inr [WriteFile target content]))"

definition promptOverwrite :: "env \<Rightarrow> string \<Rightarrow> string \<Rightarrow> effect list \<times> bool" where
  "promptOverwrite e fname location =
     (let question = ''File '' @ fname @ '' already exists in '' @ location @ ''. Overwrite? (y/N): ''
      in ([Prompt question],
          (case prompt_reply e question of
             None \<Rightarrow> False
           | Some response \<Rightarrow> toLowerCase e response = ''y''
                               \<or> toLowerCase e response = ''yes'')))"

section \<open>Adding to a pool\<close>

definition extractRepoName :: "env \<Rightarrow> string \<Rightarrow> string" where
  "extractRepoName e url =
     (case url_pathname e url of
        None \<Rightarrow> ''unknown-repo''
      | Some pathname \<Rightarrow>
          (case last_opt (split_on CHR ''/'' pathname) of
             None \<Rightarrow> ''unknown-repo''
           | Some lastPart \<Rightarrow>
               if lastPart = [] then ''unknown-repo'' else strip_suffix ''.git'' lastPart))"

definition normalizeUrl :: "env \<Rightarrow> string \<Rightarrow> string" where
  "normalizeUrl e u = toLowerCase e (strip_suffix ''.git'' u)"

text \<open>
  \<open>addFromGitRepo\<close>. \<open>process.exit(1)\<close> ends the run where it stands; an error thrown by
  the version-control tool is caught by the enclosing \<open>try\<close>, which reports it and exits
  with status 1.
\<close>

definition addFromGitRepo :: "env \<Rightarrow> string \<Rightarrow> string option \<Rightarrow> outcome" where
  "addFromGitRepo e url customName =
     (let repo = (case customName of
                    Some n \<Rightarrow> if n \<noteq> [] then n else extractRepoName e url
                  | None \<Rightarrow> extractRepoName e url);
          repoPath = snd (getRepoPaths e repo None);
          dirExists = directoryExists e repoPath
      in if dirExists then
           (let gitConfigPath = path_join [repoPath, ''.git'', ''config''];
                isGitRepo = file_exists e gitConfigPath
            in if \<not> isGitRepo then
                 ([LogError (cross @ '' Directory '' @ quote @ repo @ quote
                               @ '' exists but is not a git repository''),
                   Log ''   Remove it manually or use --as <name> to choose a different name''],
                  1)
               else
                 (case git_origin e repoPath of
                    Inl err \<Rightarrow> ([LogError (cross @ '' Failed to clone repository: '' @ err)], 1)
                  | Inr out \<Rightarrow>
                      (let existingOrigin = trim e out;
                           sameRepo = (normalizeUrl e existingOrigin = normalizeUrl e url)
                       in if sameRepo then
                            (case git_pull e repoPath of
                               Some err \<Rightarrow>
                                 ([Log (''Repository '' @ repo
                                          @ '' already exists, pulling latest changes...''),
                                   GitPull repoPath,
                                   LogError (cross @ '' Failed to clone repository: '' @ err)],
                                  1)
                             | None \<Rightarrow>
                                 ([Log (''Repository '' @ repo
                                          @ '' already exists, pulling latest changes...''),
                                   GitPull repoPath,
                                   Log (tick @ '' Repository '' @ repo @ '' added to pool'')],
                                  0))
                          else
                            ([LogError (cross @ '' Repository name '' @ quote @ repo @ quote
                                          @ '' already exists in pool''),
                              LogError (''   Existing origin: '' @ existingOrigin),
                              LogError (''   Requested URL: '' @ url),
                              Log ''   Use --as <different-name> to choose a different name''],
                             1))))
         else
           (case git_clone e url repoPath of
              Some err \<Rightarrow>
                ([Log (''Cloning repository as '' @ quote @ repo @ quote @ ''...''),
                  GitClone url repoPath,
                  LogError (cross @ '' Failed to clone repository: '' @ err)],
                 1)
            | None \<Rightarrow>
                ([Log (''Cloning repository as '' @ quote @ repo @ quote @ ''...''),
                  GitClone url repoPath,
                  Log (tick @ '' Repository '' @ repo @ '' added to pool'')],
                 0)))"

text \<open>\<open>s.replace(pat, rep)\<close> for a literal pattern: the first occurrence only.\<close>

fun replace_first :: "string \<Rightarrow> string \<Rightarrow> string \<Rightarrow> string" where
  "replace_first pat rep [] = (if pat = [] then rep else [])"
| "replace_first pat rep (x # xs) =
     (if take (length pat) (x # xs) = pat then rep @ drop (length pat) (x # xs)
      else x # replace_first pat rep xs)"

definition addFromLocalFile :: "env \<Rightarrow> string \<Rightarrow> outcome" where
  "addFromLocalFile e url =
     (let filePath = replace_first ''file://'' [] url
      in case file_text e filePath of
           Inl err \<Rightarrow> ([LogError (cross @ '' Failed to copy local file: '' @ err)], 1)
         | Inr content \<Rightarrow>
             (let fname = or_else (last_opt (split_on CHR ''/'' filePath)) ''local-agent.md'';
                  paths = getAddPaths e ''temp'' None;
                  targetPath = path_join [localAgentsPath paths, fname]
              in case write_error e targetPath of
                   Some err \<Rightarrow> ([LogError (cross @ '' Failed to copy local file: '' @ err)], 1)
                 | None \<Rightarrow>
                     ([WriteFile targetPath content,
                       Log (tick @ '' Copied '' @ fname @ '' to pool'')], 0)))"

text \<open>
  \<open>addClaudeProjectAgent\<close>, \<open>addClaudePersonalAgent\<close>, \<open>addClaudeCommand\<close> and
  \<open>addClaudeShared\<close> have one body, up to the two paths and the words of their messages.
\<close>

definition add_body ::
  "env \<Rightarrow> string \<Rightarrow> string \<Rightarrow> string \<Rightarrow> string \<Rightarrow> string \<Rightarrow> string \<Rightarrow> outcome" where
  "add_body e src dst name missing origin what =
     (if \<not> file_exists e src then
        ([LogError (cross @ '' '' @ missing @ '' not found: '' @ src)], 1)
      else
        (let asked = (if file_exists e dst then promptOverwrite e (name @ ''.md'') ''pool''
                      else ([], True))
         in if \<not> snd asked then (fst asked @ [Log (tick @ '' Operation cancelled'')], 0)
            else
              (case copyFile e src dst of
                 Inl err \<Rightarrow>
                   (fst asked @ [LogError (cross @ '' Failed to add '' @ what @ '': '' @ err)], 1)
               | Inr written \<Rightarrow>
                   (fst asked @ written
                      @ [Log (tick @ '' Copied '' @ name @ ''.md from '' @ origin @ '' to pool'')],
                    0))))"

definition addClaudeProjectAgent :: "env \<Rightarrow> string \<Rightarrow> outcome" where
  "addClaudeProjectAgent e agentName =
     (let paths = getAddPaths e agentName None
      in add_body e (claudeSourcePath paths) (buddyDestPath paths) agentName
           ''Agent file'' ''Claude project'' ''agent'')"

definition addClaudePersonalAgent :: "env \<Rightarrow> string \<Rightarrow> outcome" where
  "addClaudePersonalAgent e agentName =
     (let paths = getAddPathsWithConfig e agentName None True
      in add_body e (claudeSourcePath paths) (buddyDestPath paths) agentName
           ''Agent file'' ''~/.claude/agents/'' ''agent'')"

definition addClaudeCommand :: "env \<Rightarrow> string \<Rightarrow> outcome" where
  "addClaudeCommand e commandName =
     (let buddyPath = getBuddyBasePath e None;
          localCommandsPath = path_join [buddyPath, ''pools'', ''local'', ''commands''];
          src = path_join [cwd e, ''.claude'', ''commands'', commandName @ ''.md''];
          dst = path_join [localCommandsPath, commandName @ ''.md'']
      in add_body e src dst commandName ''Command file'' ''Claude project'' ''command'')"

definition addClaudeShared :: "env \<Rightarrow> string \<Rightarrow> outcome" where
  "addClaudeShared e sharedName =
     (let buddyPath = getBuddyBasePath e None;
          localSharedPath = path_join [buddyPath, ''pools'', ''local'', ''shared''];
          src = path_join [cwd e, ''.claude'', ''shared'', sharedName @ ''.md''];
          dst = path_join [localSharedPath, sharedName @ ''.md'']
      in add_body e src dst sharedName
           ''Shared context file'' ''Claude project'' ''shared context'')"

section \<open>Importing from a pool\<close>

text \<open>
  \<open>importLocalAgent\<close> and \<open>importToClaudePersonal\<close> have one body after the call that
  computes the paths. An error that call throws is caught by nobody: the run ends with
  it. A missing source is reported and the function returns; so does a failed copy.
\<close>

text \<open>A path that is neither \<open>null\<close> nor empty, as \<open>if (!p)\<close> tests it.\<close>

fun truthy :: "string option \<Rightarrow> string option" where
  "truthy None = None"
| "truthy (Some s) = (if s = [] then None else Some s)"

definition import_body :: "env \<Rightarrow> string + import_paths \<Rightarrow> string \<Rightarrow> string \<Rightarrow> outcome" where
  "import_body e computed apath fname =
     (case computed of
        Inl err \<Rightarrow> ([Uncaught err], 1)
      | Inr paths \<Rightarrow>
          (case truthy (sourcePath paths) of
             None \<Rightarrow>
               (let fullPath = (if agentsConfigPath paths \<noteq> []
                                then path_join [agentsConfigPath paths, apath] else apath)
                in case extension' paths of
                     Some x \<Rightarrow>
                       ([LogError (cross @ '' Agent file not found. Tried: ''
                                     @ fullPath @ ''.'' @ js_string x @ '', '' @ fullPath)], 0)
                   | None \<Rightarrow>
                       ([LogError (cross @ '' Agent file not found. Tried: ''
                                     @ fullPath @ ''.md, '' @ fullPath @ ''.txt, '' @ fullPath)], 0))
           | Some src \<Rightarrow>
               (let asked = (if file_exists e (destPath paths)
                             then promptOverwrite e (fname @ ''.md'') (destLocation paths)
                             else ([], True))
                in if \<not> snd asked then (fst asked @ [Log (tick @ '' Operation cancelled'')], 0)
                   else
                     (case copyFile e src (destPath paths) of
                        Inl err \<Rightarrow>
                          (fst asked @ [LogError (cross @ '' Failed to copy file: '' @ err)], 0)
                      | Inr written \<Rightarrow>
                          (fst asked @ written
                             @ [Log (tick @ '' Imported '' @ fname @ ''.md to ''
                                       @ destLocation paths)],
                           0)))))"

definition importLocalAgent :: "env \<Rightarrow> string \<Rightarrow> string \<Rightarrow> string \<Rightarrow> bool \<Rightarrow> outcome" where
  "importLocalAgent e repo apath fname toClaudeProject =
     import_body e (getImportPaths e repo apath fname toClaudeProject None) apath fname"

definition importToClaudePersonal :: "env \<Rightarrow> string \<Rightarrow> string \<Rightarrow> string \<Rightarrow> outcome" where
  "importToClaudePersonal e repo apath fname =
     import_body e (getImportPathsWithConfig e repo apath fname False True None) apath fname"

definition importCommand :: "env \<Rightarrow> string \<Rightarrow> bool \<Rightarrow> bool \<Rightarrow> bool \<Rightarrow> outcome" where
  "importCommand e source claudeProject claudePersonal force =
     (let p = parseImportSource source
      in if \<not> force \<and> toLowerCase e (filename p) = ''readme'' then
           ([LogError (cross @ '' Really? A README file? Maybe try opening it in a web browser like a normal person.''),
             Log ''   If you *really* want to import a README file, use --force''], 1)
         else if claudePersonal then
           importToClaudePersonal e (repoName p) (agentPath p) (filename p)
         else importLocalAgent e (repoName p) (agentPath p) (filename p) claudeProject)"

section \<open>Shared context for tools\<close>

text \<open>
  The first statement of \<open>toolCommand\<close>'s \<open>try\<close> block: the directory searched and the
  extension setting. The pool \<open>local\<close> has both fixed; any other pool reads its
  configuration.
\<close>

definition tool_context :: "env \<Rightarrow> parsed \<Rightarrow> string + (string \<times> json option)" where
  "tool_context e p =
     (if repoName p = ''local'' then
        (let buddyPath = getBuddyBasePath e None
         in Inr (path_join [buddyPath, ''pools'', ''local'', ''shared''], None))
      else
        (let buddyPath = getBuddyBasePath e None;
             repoPath = path_join [buddyPath, ''pools'', repoName p];
             config = loadBuddyConfigFrom e repoPath
         in case context' config of
              JStr c \<Rightarrow> Inr (path_join [repoPath, c], extension config)
            | v \<Rightarrow> Inl (type_error e v)))"

definition toolCommand :: "env \<Rightarrow> string \<Rightarrow> outcome" where
  "toolCommand e source =
     (let p = parseImportSource source
      in case tool_context e p of
           Inl err \<Rightarrow> ([ErrorRecord (''Failed to read context file: '' @ err)], 1)
         | Inr (contextPath, ext) \<Rightarrow>
             (case truthy (snd (findAgentFile e contextPath (agentPath p)
                                  (map_option js_string ext))) of
                None \<Rightarrow>
                  (let fullPath = agentPath p
                   in case ext of
                        Some x \<Rightarrow>
                          ([ErrorRecord (''Context file not found. Tried: ''
                                           @ fullPath @ ''.'' @ js_string x @ '', '' @ fullPath)], 1)
                      | None \<Rightarrow>
                          ([ErrorRecord (''Context file not found. Tried: ''
                                           @ fullPath @ ''.md, '' @ fullPath @ ''.txt, ''
                                           @ fullPath)], 1))
              | Some filePath \<Rightarrow>
                  (case file_text e filePath of
                     Inl err \<Rightarrow> ([ErrorRecord (''Failed to read context file: '' @ err)], 1)
                   | Inr content \<Rightarrow> ([ContentRecord content], 0))))"

section \<open>Listing a pool\<close>

text \<open>
  The first half of \<open>listCommand\<close>: the directory listed and the word for what it holds,
  or the outcome of the run when the pool is missing or \<open>join\<close> throws.
\<close>

definition list_target :: "env \<Rightarrow> string \<Rightarrow> bool \<Rightarrow> bool \<Rightarrow> outcome + (string \<times> string)" where
  "list_target e namespace optCommands optShared =
     (let buddyPath = getBuddyBasePath e None
      in if namespace = ''local'' then
           (let basePath = path_join [buddyPath, ''pools'', ''local'']
            in if optCommands then Inr (path_join [basePath, ''commands''], ''commands'')
               else if optShared then Inr (path_join [basePath, ''shared''], ''shared context'')
               else Inr (basePath, ''agents''))
         else
           (let repoPath = path_join [buddyPath, ''pools'', namespace]
            in if \<not> directoryExists e repoPath then
                 Inl ([LogError (cross @ '' Pool '' @ quote @ namespace @ quote @ '' not found'')], 1)
               else
                 (let config = loadBuddyConfigFrom e repoPath
                  in case (if optCommands then (commands config, ''commands'')
                           else if optShared then (context' config, ''shared context'')
                           else (agents config, ''agents'')) of
                       (JStr d, ty) \<Rightarrow> Inr (path_join [repoPath, d], ty)
                     | (v, ty) \<Rightarrow>
                         Inl ([LogError (cross @ '' Failed to list '' @ namespace @ '': ''
                                           @ type_error e v)], 1))))"

text \<open>\<open>file.replace(/\.(md|txt)$/, '')\<close>.\<close>

definition strip_md_txt :: "string \<Rightarrow> string" where
  "strip_md_txt f =
     (if ends_with f ''.md'' then strip_suffix ''.md'' f else strip_suffix ''.txt'' f)"

definition listCommand :: "env \<Rightarrow> string \<Rightarrow> bool \<Rightarrow> bool \<Rightarrow> outcome" where
  "listCommand e namespace optCommands optShared =
     (case list_target e namespace optCommands optShared of
        Inl out \<Rightarrow> out
      | Inr (listPath, ty) \<Rightarrow>
          if \<not> directoryExists e listPath then
            ([Log (''No '' @ ty @ '' found in '' @ namespace)], 0)
          else
            (case glob_files e ''**/*.md'' listPath of
               Inl err \<Rightarrow>
                 ([LogError (cross @ '' Failed to list '' @ namespace @ '': '' @ err)], 1)
             | Inr mdFiles \<Rightarrow>
                 (case glob_files e ''**/*.txt'' listPath of
                    Inl err \<Rightarrow>
                      ([LogError (cross @ '' Failed to list '' @ namespace @ '': '' @ err)], 1)
                  | Inr txtFiles \<Rightarrow>
                      (let allFiles = mdFiles @ txtFiles
                       in if allFiles = [] then
                            ([Log (''No '' @ ty @ '' found in '' @ namespace)], 0)
                          else
                            (let items = sort (map strip_md_txt allFiles)
                             in (Log (ty @ '' in '' @ namespace @ '':'')
                                   # map (\<lambda>item. Log (''  '' @ item)) items,
                                 0))))))"

section \<open>Reading a report\<close>

text \<open>
  The names a not-found report lists, as the specification orders the candidates: the
  configured extension and then none, or \<open>.md\<close>, \<open>.txt\<close> and then none.
\<close>

definition reported_names :: "string \<Rightarrow> string option \<Rightarrow> string list" where
  "reported_names full ext =
     (case ext of
        Some x \<Rightarrow> [full @ ''.'' @ x, full]
      | None \<Rightarrow> [full @ ''.md'', full @ ''.txt'', full])"



section \<open>A small world to run the program in\<close>

text \<open>
  The strings of this world are ASCII. On such strings \<open>toLowerCase\<close> maps \<open>A\<close>..\<open>Z\<close> to
  \<open>a\<close>..\<open>z\<close> and \<open>trim\<close> removes blanks, tabs and line breaks at both ends.
\<close>

definition ascii_lower_char :: "char \<Rightarrow> char" where
  "ascii_lower_char c =
     (case map_of (zip ''ABCDEFGHIJKLMNOPQRSTUVWXYZ'' ''abcdefghijklmnopqrstuvwxyz'') c of
        Some d \<Rightarrow> d
      | None \<Rightarrow> c)"

definition ascii_lower :: "string \<Rightarrow> string" where
  "ascii_lower s = map ascii_lower_char s"

definition ascii_space :: "char \<Rightarrow> bool" where
  "ascii_space c = (c \<in> set [CHR 0x20, CHR 0x09, CHR 0x0A, CHR 0x0B, CHR 0x0C, CHR 0x0D])"

definition ascii_trim :: "string \<Rightarrow> string" where
  "ascii_trim s = rev (dropWhile ascii_space (rev (dropWhile ascii_space s)))"

text \<open>
  An environment given by the files that exist, the documents that parse (a file with no
  document here does not parse), the directories that can be scanned and the origins the
  clones record. The home directory is \<open>/home/u\<close>, the working directory \<open>/work\<close>; every
  file reads as \<open>text\<close>, every write, pull and clone succeeds, and prompts are declined.
\<close>

definition world ::
  "string list \<Rightarrow> (string \<times> json) list \<Rightarrow> string list \<Rightarrow> (string \<times> string) list \<Rightarrow> env" where
  "world files documents dirs origins =
     \<lparr> cwd = ''/work'',
       homedir = ''/home/u'',
       file_exists = (\<lambda>p. p \<in> set files),
       file_text = (\<lambda>p. if p \<in> set files then Inr ''text'' else Inl ''ENOENT''),
       file_json = map_of documents,
       write_error = (\<lambda>p. None),
       scan_dir = (\<lambda>p. if p \<in> set dirs then Some [] else None),
       glob_files = (\<lambda>pat d. Inr []),
       url_pathname = (\<lambda>u. None),
       git_origin = (\<lambda>d. case map_of origins d of Some s \<Rightarrow> Inr s | None \<Rightarrow> Inl ''exit code 1''),
       git_pull = (\<lambda>d. None),
       git_clone = (\<lambda>u d. None),
       prompt_reply = (\<lambda>q. None),
       type_error = (\<lambda>v. ''TypeError''),
       toLowerCase = ascii_lower,
       trim = ascii_trim \<rparr>"

section \<open>Splitting and joining\<close>

lemma split_on_not_Nil: "split_on c s \<noteq> []"
  by (induction s) (auto split: list.splits)

lemma split_on_no_sep: "c \<notin> set s \<Longrightarrow> split_on c s = [s]"
  by (induction s) auto

lemma split_on_append: "c \<notin> set p \<Longrightarrow> split_on c (p @ c # r) = p # split_on c r"
  by (induction p) auto

lemma join_with_Cons: "xs \<noteq> [] \<Longrightarrow> join_with sep (x # xs) = x @ sep @ join_with sep xs"
  by (cases xs) auto

lemma join_split_on: "join_with [c] (split_on c s) = s"
proof (induction s)
  case Nil
  then show ?case by simp
next
  case (Cons x xs)
  show ?case
  proof (cases "x = c")
    case True
    then show ?thesis using Cons split_on_not_Nil[of c xs]
      by (simp add: join_with_Cons)
  next
    case False
    obtain y ys where ys: "split_on c xs = y # ys"
      using split_on_not_Nil[of c xs] by (cases "split_on c xs") auto
    show ?thesis using False Cons ys
      by (cases ys) auto
  qed
qed

lemma split_on_sep_append: "split_on c (q @ c # l) = split_on c q @ split_on c l"
proof (induction q)
  case Nil
  then show ?case by simp
next
  case (Cons x q)
  obtain y ys where ys: "split_on c q = y # ys"
    using split_on_not_Nil[of c q] by (cases "split_on c q") auto
  show ?case using Cons ys by simp
qed

lemma last_split_on_append: "c \<notin> set l \<Longrightarrow> last (split_on c (q @ c # l)) = l"
  by (simp add: split_on_sep_append split_on_no_sep)

lemma last_opt_last: "xs \<noteq> [] \<Longrightarrow> last_opt xs = Some (last xs)"
  by (cases xs rule: rev_cases) (auto simp: last_opt_def)

section \<open>Artifact location\<close>

text \<open>
  C1. For every base directory, relative path and extension setting, artifact location
  asks exactly the candidates \<open>base/path.md\<close>, \<open>base/path.txt\<close>, \<open>base/path\<close> (extension
  absent) or \<open>base/path.E\<close>, \<open>base/path\<close> (extension \<open>E\<close>) in that order, stops at and
  returns the first that exists, and returns nothing when none exists.
\<close>

theorem findAgentFile_first_existing_candidate:
  "findAgentFile e base path ext = spec_probe (file_exists e) (spec_candidates base path ext)
   \<and> snd (findAgentFile e base path ext) = List.find (file_exists e) (spec_candidates base path ext)
   \<and> (snd (findAgentFile e base path ext) = None
        \<longleftrightarrow> (\<forall>c \<in> set (spec_candidates base path ext). \<not> file_exists e c))"
  by (cases ext) (auto simp: findAgentFile_def spec_candidates_def Let_def)

text \<open>
  In a directory holding \<open>a.txt\<close> and \<open>b\<close>: \<open>a\<close> is found as \<open>a.txt\<close> after \<open>a.md\<close> was
  asked; \<open>b\<close> with the extension \<open>foo\<close> is found without extension after \<open>b.foo\<close> was
  asked; \<open>c\<close> is not found.
\<close>

theorem findAgentFile_first_existing_candidate_witness:
  "findAgentFile (world [''/p/a.txt'', ''/p/b''] [] [] []) ''/p'' ''a'' None
     = ([''/p/a.md'', ''/p/a.txt''], Some ''/p/a.txt'')
   \<and> findAgentFile (world [''/p/a.txt'', ''/p/b''] [] [] []) ''/p'' ''b'' (Some ''foo'')
     = ([''/p/b.foo'', ''/p/b''], Some ''/p/b'')
   \<and> snd (findAgentFile (world [''/p/a.txt'', ''/p/b''] [] [] []) ''/p'' ''c'' None) = None"
  using findAgentFile_first_existing_candidate
          [of "world [''/p/a.txt'', ''/p/b''] [] [] []" "''/p''" "''a''" None]
        findAgentFile_first_existing_candidate
          [of "world [''/p/a.txt'', ''/p/b''] [] [] []" "''/p''" "''b''" "Some ''foo''"]
        findAgentFile_first_existing_candidate
          [of "world [''/p/a.txt'', ''/p/b''] [] [] []" "''/p''" "''c''" None]
  by (simp add: spec_candidates_def world_def)

section \<open>Parsing a symbolic reference\<close>

text \<open>
  C8 as stated fails: a reference without a separator does not get the pool name
  \<open>local\<close>; the whole string is the pool name.
\<close>

theorem parseImportSource_no_default_local:
  "repoName (parseImportSource ''foo'') = ''foo''
   \<and> repoName (parseImportSource ''foo'') \<noteq> ''local''"
  by (simp add: parseImportSource_def)

text \<open>
  C8 (amended). A reference without a separator is, whole, both the pool name and the
  leaf name, and its relative path is empty. Otherwise the first segment is the pool
  name and the rest of the string after the first separator is the relative path; the
  segment after the last separator is the leaf name. An empty first segment is replaced
  by \<open>unknown-repo\<close> and an empty last segment by \<open>unknown-agent\<close>.
\<close>

theorem parseImportSource_segments:
  "(CHR ''/'' \<notin> set s \<longrightarrow>
      parseImportSource s =
        \<lparr> repoName = (if s = [] then ''unknown-repo'' else s),
          agentPath = [],
          filename = (if s = [] then ''unknown-agent'' else s) \<rparr>)
   \<and> (CHR ''/'' \<notin> set p \<longrightarrow>
        repoName (parseImportSource (p @ ''/'' @ r)) = (if p = [] then ''unknown-repo'' else p)
        \<and> agentPath (parseImportSource (p @ ''/'' @ r)) = r)
   \<and> (CHR ''/'' \<notin> set l \<longrightarrow>
        filename (parseImportSource (q @ ''/'' @ l)) = (if l = [] then ''unknown-agent'' else l))"
proof (intro conjI impI)
  assume "CHR ''/'' \<notin> set s"
  then show "parseImportSource s =
        \<lparr> repoName = (if s = [] then ''unknown-repo'' else s),
          agentPath = [],
          filename = (if s = [] then ''unknown-agent'' else s) \<rparr>"
    by (simp add: parseImportSource_def split_on_no_sep last_opt_def)
next
  assume "CHR ''/'' \<notin> set p"
  then show "repoName (parseImportSource (p @ ''/'' @ r)) = (if p = [] then ''unknown-repo'' else p)"
    by (simp add: parseImportSource_def split_on_append)
next
  assume "CHR ''/'' \<notin> set p"
  then show "agentPath (parseImportSource (p @ ''/'' @ r)) = r"
    using join_split_on[of "CHR ''/''" r]
    by (simp add: parseImportSource_def split_on_append)
next
  assume "CHR ''/'' \<notin> set l"
  then show "filename (parseImportSource (q @ ''/'' @ l)) = (if l = [] then ''unknown-agent'' else l)"
    using last_split_on_append[of "CHR ''/''" l q] split_on_not_Nil[of "CHR ''/''" "q @ ''/'' @ l"]
    by (simp add: parseImportSource_def last_opt_last Let_def)
qed

theorem parseImportSource_segments_witness:
  "parseImportSource ''foo'' = \<lparr> repoName = ''foo'', agentPath = [], filename = ''foo'' \<rparr>
   \<and> repoName (parseImportSource ''pool/a/b'') = ''pool''
   \<and> agentPath (parseImportSource ''pool/a/b'') = ''a/b''
   \<and> filename (parseImportSource ''pool/a/b'') = ''b''
   \<and> filename (parseImportSource ''pool/'') = ''unknown-agent''"
  using parseImportSource_segments[where s = "''foo''" and p = "''pool''" and r = "''a/b''"
          and q = "''pool/a''" and l = "''b''"]
        parseImportSource_segments[where s = "''foo''" and p = "''pool''" and r = "''a/b''"
          and q = "''pool''" and l = "[]"]
  by simp

lemma split_on_segments: "seg \<in> set (split_on c s) \<Longrightarrow> c \<notin> set seg"
proof (induction s arbitrary: seg)
  case Nil
  then show ?case by simp
next
  case (Cons x xs)
  obtain y ys where ys: "split_on c xs = y # ys"
    using split_on_not_Nil[of c xs] by (cases "split_on c xs") auto
  show ?case
  proof (cases "x = c")
    case True
    then show ?thesis using Cons by auto
  next
    case False
    then have "seg = x # y \<or> seg \<in> set ys" using Cons.prems ys by simp
    moreover have "c \<notin> set y" using Cons.IH[of y] ys by simp
    moreover have "seg \<in> set ys \<Longrightarrow> c \<notin> set seg" using Cons.IH[of seg] ys by simp
    ultimately show ?thesis using False by auto
  qed
qed

text \<open>The leaf name is never empty and holds no separator.\<close>

lemma filename_leaf:
  "filename (parseImportSource s) \<noteq> [] \<and> CHR ''/'' \<notin> set (filename (parseImportSource s))"
proof -
  let ?parts = "split_on CHR ''/'' s"
  have ne: "?parts \<noteq> []" by (rule split_on_not_Nil)
  then have lo: "last_opt ?parts = Some (last ?parts)" by (rule last_opt_last)
  have "CHR ''/'' \<notin> set (last ?parts)"
    using split_on_segments[of "last ?parts" "CHR ''/''" s] ne by simp
  then show ?thesis
    by (simp add: parseImportSource_def Let_def lo)
qed

section \<open>The last segment of a joined path\<close>

lemma normalizeString_snoc:
  "seg \<noteq> [] \<Longrightarrow> seg \<noteq> ''.'' \<Longrightarrow> seg \<noteq> ''..'' \<Longrightarrow>
   normalizeString a res (xs @ [seg]) = normalizeString a res xs @ [seg]"
  by (induction a res xs rule: normalizeString.induct) (auto split: list.splits)

lemma join_with_snoc:
  "join_with sep (xs @ [x]) = (if xs = [] then x else join_with sep xs @ sep @ x)"
  by (induction sep xs rule: join_with.induct) auto

lemma normalize_last_segment:
  assumes ne: "seg \<noteq> []" and nosep: "CHR ''/'' \<notin> set seg"
      and nd: "seg \<noteq> ''.''" and ndd: "seg \<noteq> ''..''"
  shows "\<exists>d. normalize (join_with ''/'' (ys @ [seg])) = d @ seg \<and> (d = [] \<or> last d = CHR ''/'')"
proof (cases "ys = []")
  case True
  have hd: "hd seg \<noteq> CHR ''/''" using ne nosep by (cases seg) auto
  have la: "last seg \<noteq> CHR ''/''" using ne nosep last_in_set[of seg] by metis
  have "normalize seg = seg"
    using ne hd la nd ndd nosep
    by (simp add: normalize_def Let_def split_on_no_sep)
  then show ?thesis using True by simp
next
  case False
  define Q where "Q = join_with ''/'' ys"
  define P where "P = Q @ CHR ''/'' # seg"
  have P: "join_with ''/'' (ys @ [seg]) = P"
    using False by (simp add: join_with_snoc P_def Q_def)
  define N where "N = normalizeString (hd P \<noteq> CHR ''/'') [] (split_on CHR ''/'' Q)"
  have sp: "split_on CHR ''/'' P = split_on CHR ''/'' Q @ [seg]"
    unfolding P_def by (simp add: split_on_sep_append split_on_no_sep nosep)
  have ns: "normalizeString (hd P \<noteq> CHR ''/'') [] (split_on CHR ''/'' P) = N @ [seg]"
    unfolding sp N_def by (rule normalizeString_snoc[OF ne nd ndd])
  have "last seg \<noteq> CHR ''/''" using ne nosep last_in_set[of seg] by metis
  then have la: "last P \<noteq> CHR ''/''"
    using ne by (simp add: P_def)
  have Pne: "P \<noteq> []" by (simp add: P_def)
  have jn: "join_with ''/'' (N @ [seg]) \<noteq> []" using ne by (simp add: join_with_snoc)
  have "normalize P =
      (if hd P = CHR ''/'' then ''/'' else []) @ (if N = [] then [] else join_with ''/'' N @ ''/'') @ seg"
    using Pne la ns jn
    by (simp add: normalize_def Let_def join_with_snoc)
  then show ?thesis
    unfolding P
    by (intro exI[of _ "(if hd P = CHR ''/'' then ''/'' else [])
                          @ (if N = [] then [] else join_with ''/'' N @ ''/'')"]) auto
qed

lemma path_join_last_segment:
  assumes ne: "seg \<noteq> []" and nosep: "CHR ''/'' \<notin> set seg"
      and nd: "seg \<noteq> ''.''" and ndd: "seg \<noteq> ''..''"
  shows "\<exists>d. path_join (xs @ [seg]) = d @ seg \<and> (d = [] \<or> last d = CHR ''/'')"
  using normalize_last_segment[OF assms, of "filter (\<lambda>a. a \<noteq> []) xs"] ne
  by (simp add: path_join_def Let_def)

section \<open>Pool configuration\<close>

lemma BuddyConfig_new_fields:
  "BuddyConfig_new = \<lparr> agents = JStr [], commands = JStr ''commands'', context' = JStr ''shared'',
      extension = None, pools = None \<rparr>"
  by (simp add: BuddyConfig_new_def BuddyConfig_ctor_def)

lemma load_absent:
  "\<not> file_exists e (path_join [root, ''.buddy'', ''config.json'']) \<Longrightarrow>
   loadBuddyConfigFrom e root = BuddyConfig_new"
  by (simp add: loadBuddyConfigFrom_def Let_def)

lemma load_malformed:
  "file_json e (path_join [root, ''.buddy'', ''config.json'']) = None \<Longrightarrow>
   loadBuddyConfigFrom e root = BuddyConfig_new"
  by (simp add: loadBuddyConfigFrom_def Let_def)

lemma load_document:
  assumes "file_exists e (path_join [root, ''.buddy'', ''config.json''])"
      and "file_json e (path_join [root, ''.buddy'', ''config.json'']) = Some d"
  shows "loadBuddyConfigFrom e root =
     \<lparr> agents = nullish (property d ''agents'') (JStr []),
       commands = nullish (property d ''commands'') (JStr ''commands''),
       context' = nullish (property d ''context'') (JStr ''shared''),
       extension = property d ''extension'',
       pools = property d ''pools'' \<rparr>"
  using assms
  by (cases d) (simp_all add: loadBuddyConfigFrom_def Let_def BuddyConfig_ctor_def BuddyConfig_new_def)

lemma nullish_Some: "v \<noteq> JNull \<Longrightarrow> nullish (Some v) d = v"
  by (cases v) simp_all

lemma nullish_default: "x = None \<or> x = Some JNull \<Longrightarrow> nullish x d = d"
  by auto

text \<open>The search looks at the file system only through the candidates.\<close>

lemma findAgentFile_cong:
  "\<forall>c \<in> set (spec_candidates base path ext). file_exists e1 c = file_exists e2 c \<Longrightarrow>
   findAgentFile e1 base path ext = findAgentFile e2 base path ext"
  by (cases ext) (simp_all add: findAgentFile_def spec_candidates_def Let_def)

lemma getImportPaths_Inr:
  assumes "agents (loadBuddyConfigFrom e (path_join [getBuddyBasePath e None, ''pools'', repo])) = JStr a"
  shows "getImportPaths e repo apath fname proj None =
     Inr \<lparr> sourcePath = snd (findAgentFile e
               (path_join [path_join [getBuddyBasePath e None, ''pools'', repo], a]) apath
               (map_option js_string
                  (extension (loadBuddyConfigFrom e
                     (path_join [getBuddyBasePath e None, ''pools'', repo]))))),
           destPath = (if proj then path_join [cwd e, ''.claude'', ''agents'', fname @ ''.md'']
                       else path_join [cwd e, fname @ ''.md'']),
           destLocation = (if proj then ''.claude/agents/'' else ''current directory''),
           extension' = extension (loadBuddyConfigFrom e
                          (path_join [getBuddyBasePath e None, ''pools'', repo])),
           agentsConfigPath = a \<rparr>"
  using assms by (simp add: getImportPaths_def Let_def)

lemma getImportPathsWithConfig_Inr:
  assumes "agents (loadBuddyConfigFrom e (path_join [getBuddyBasePath e None, ''pools'', repo])) = JStr a"
  shows "getImportPathsWithConfig e repo apath fname proj pers None =
     Inr \<lparr> sourcePath = snd (findAgentFile e
               (path_join [path_join [getBuddyBasePath e None, ''pools'', repo], a]) apath
               (map_option js_string
                  (extension (loadBuddyConfigFrom e
                     (path_join [getBuddyBasePath e None, ''pools'', repo]))))),
           destPath = (if pers then path_join [homedir e, ''.claude'', ''agents'', fname @ ''.md'']
                       else if proj then path_join [cwd e, ''.claude'', ''agents'', fname @ ''.md'']
                       else path_join [cwd e, fname @ ''.md'']),
           destLocation = (if pers then ''~/.claude/agents/''
                           else if proj then ''.claude/agents/'' else ''current directory''),
           extension' = extension (loadBuddyConfigFrom e
                          (path_join [getBuddyBasePath e None, ''pools'', repo])),
           agentsConfigPath = a \<rparr>"
  using assms by (simp add: getImportPathsWithConfig_def Let_def)

lemma getImportPaths_default:
  "loadBuddyConfigFrom e (path_join [getBuddyBasePath e None, ''pools'', repo]) = BuddyConfig_new \<Longrightarrow>
   getImportPaths e repo apath fname proj None =
     Inr \<lparr> sourcePath = snd (findAgentFile e
               (path_join [path_join [getBuddyBasePath e None, ''pools'', repo], []]) apath None),
           destPath = (if proj then path_join [cwd e, ''.claude'', ''agents'', fname @ ''.md'']
                       else path_join [cwd e, fname @ ''.md'']),
           destLocation = (if proj then ''.claude/agents/'' else ''current directory''),
           extension' = None,
           agentsConfigPath = [] \<rparr>"
  by (simp add: getImportPaths_def BuddyConfig_new_fields Let_def)

lemma tool_context_default:
  "loadBuddyConfigFrom e (path_join [getBuddyBasePath e None, ''pools'', repoName p]) = BuddyConfig_new \<Longrightarrow>
   repoName p \<noteq> ''local'' \<Longrightarrow>
   tool_context e p =
     Inr (path_join [path_join [getBuddyBasePath e None, ''pools'', repoName p], ''shared''], None)"
  by (simp add: tool_context_def BuddyConfig_new_fields Let_def)

text \<open>
  C3. For every pool root, a configuration resource that exists but does not parse
  loads, without an error, as the same configuration as an absent one: agents \<open>""\<close>,
  commands \<open>commands\<close>, context \<open>shared\<close>, no extension. So resolution for import and for
  tool is the same in two worlds that differ in nothing else the search looks at: the
  same pool root and working directory, and the same answers about the candidates.
\<close>

theorem malformed_config_same_as_absent:
  assumes ex: "file_exists e1 (path_join [root, ''.buddy'', ''config.json''])"
      and bad: "file_json e1 (path_join [root, ''.buddy'', ''config.json'']) = None"
      and absent: "\<not> file_exists e2 (path_join [root, ''.buddy'', ''config.json''])"
  shows "loadBuddyConfigFrom e1 root = loadBuddyConfigFrom e2 root
     \<and> loadBuddyConfigFrom e1 root =
         \<lparr> agents = JStr [], commands = JStr ''commands'', context' = JStr ''shared'',
           extension = None, pools = None \<rparr>
     \<and> (root = path_join [getBuddyBasePath e1 None, ''pools'', repo]
          \<and> root = path_join [getBuddyBasePath e2 None, ''pools'', repo]
          \<and> cwd e1 = cwd e2
          \<and> (\<forall>c \<in> set (spec_candidates (path_join [root, []]) apath None).
                 file_exists e1 c = file_exists e2 c)
          \<longrightarrow> getImportPaths e1 repo apath fname proj None
              = getImportPaths e2 repo apath fname proj None)
     \<and> (repoName p \<noteq> ''local''
          \<and> root = path_join [getBuddyBasePath e1 None, ''pools'', repoName p]
          \<and> root = path_join [getBuddyBasePath e2 None, ''pools'', repoName p]
          \<and> (\<forall>c \<in> set (spec_candidates (path_join [root, ''shared'']) (agentPath p) None).
                 file_exists e1 c = file_exists e2 c)
          \<longrightarrow> tool_context e1 p = Inr (path_join [root, ''shared''], None)
            \<and> tool_context e2 p = Inr (path_join [root, ''shared''], None)
            \<and> findAgentFile e1 (path_join [root, ''shared'']) (agentPath p) None
              = findAgentFile e2 (path_join [root, ''shared'']) (agentPath p) None)"
proof -
  have l1: "loadBuddyConfigFrom e1 root = BuddyConfig_new"
    using bad by (rule load_malformed)
  have l2: "loadBuddyConfigFrom e2 root = BuddyConfig_new"
    using absent by (rule load_absent)
  have imp: "getImportPaths e1 repo apath fname proj None = getImportPaths e2 repo apath fname proj None"
    if r1: "root = path_join [getBuddyBasePath e1 None, ''pools'', repo]"
    and r2: "root = path_join [getBuddyBasePath e2 None, ''pools'', repo]"
    and c: "cwd e1 = cwd e2"
    and same: "\<forall>c \<in> set (spec_candidates (path_join [root, []]) apath None).
                 file_exists e1 c = file_exists e2 c"
  proof -
    have a: "getImportPaths e1 repo apath fname proj None =
       Inr \<lparr> sourcePath = snd (findAgentFile e1 (path_join [root, []]) apath None),
           destPath = (if proj then path_join [cwd e1, ''.claude'', ''agents'', fname @ ''.md'']
                       else path_join [cwd e1, fname @ ''.md'']),
           destLocation = (if proj then ''.claude/agents/'' else ''current directory''),
           extension' = None,
           agentsConfigPath = [] \<rparr>"
      using getImportPaths_default[of e1 repo apath fname proj] l1 r1 by simp
    have b: "getImportPaths e2 repo apath fname proj None =
       Inr \<lparr> sourcePath = snd (findAgentFile e2 (path_join [root, []]) apath None),
           destPath = (if proj then path_join [cwd e2, ''.claude'', ''agents'', fname @ ''.md'']
                       else path_join [cwd e2, fname @ ''.md'']),
           destLocation = (if proj then ''.claude/agents/'' else ''current directory''),
           extension' = None,
           agentsConfigPath = [] \<rparr>"
      using getImportPaths_default[of e2 repo apath fname proj] l2 r2 by simp
    show ?thesis
      unfolding a b using findAgentFile_cong[OF same] c by simp
  qed
  have tool: "tool_context e1 p = Inr (path_join [root, ''shared''], None)
            \<and> tool_context e2 p = Inr (path_join [root, ''shared''], None)
            \<and> findAgentFile e1 (path_join [root, ''shared'']) (agentPath p) None
              = findAgentFile e2 (path_join [root, ''shared'']) (agentPath p) None"
    if nl: "repoName p \<noteq> ''local''"
    and r1: "root = path_join [getBuddyBasePath e1 None, ''pools'', repoName p]"
    and r2: "root = path_join [getBuddyBasePath e2 None, ''pools'', repoName p]"
    and same: "\<forall>c \<in> set (spec_candidates (path_join [root, ''shared'']) (agentPath p) None).
                 file_exists e1 c = file_exists e2 c"
    using tool_context_default[of e1 p] tool_context_default[of e2 p] l1 l2 r1 r2 nl
          findAgentFile_cong[OF same]
    by simp
  have c1: "loadBuddyConfigFrom e1 root = loadBuddyConfigFrom e2 root"
    using l1 l2 by simp
  have c2: "loadBuddyConfigFrom e1 root =
         \<lparr> agents = JStr [], commands = JStr ''commands'', context' = JStr ''shared'',
           extension = None, pools = None \<rparr>"
    using l1 by (simp add: BuddyConfig_new_fields)
  show ?thesis
    using c1 c2 imp tool by blast
qed

text \<open>
  A pool whose configuration file exists and does not parse, beside the same pool
  without the file: the same configuration, and \<open>pool/x\<close> resolves to \<open>x.txt\<close> in both.
\<close>

theorem malformed_config_same_as_absent_witness:
  "file_exists
      (world [''/home/u/.buddy/pools/pool/.buddy/config.json'', ''/home/u/.buddy/pools/pool/x.txt'']
         [] [] [])
      (path_join [''/home/u/.buddy/pools/pool'', ''.buddy'', ''config.json''])
   \<and> file_json
      (world [''/home/u/.buddy/pools/pool/.buddy/config.json'', ''/home/u/.buddy/pools/pool/x.txt'']
         [] [] [])
      (path_join [''/home/u/.buddy/pools/pool'', ''.buddy'', ''config.json'']) = None
   \<and> \<not> file_exists (world [''/home/u/.buddy/pools/pool/x.txt''] [] [] [])
      (path_join [''/home/u/.buddy/pools/pool'', ''.buddy'', ''config.json''])
   \<and> loadBuddyConfigFrom
      (world [''/home/u/.buddy/pools/pool/.buddy/config.json'', ''/home/u/.buddy/pools/pool/x.txt'']
         [] [] [])
      ''/home/u/.buddy/pools/pool''
   = loadBuddyConfigFrom (world [''/home/u/.buddy/pools/pool/x.txt''] [] [] [])
      ''/home/u/.buddy/pools/pool''
   \<and> getImportPaths
      (world [''/home/u/.buddy/pools/pool/.buddy/config.json'', ''/home/u/.buddy/pools/pool/x.txt'']
         [] [] [])
      ''pool'' ''x'' ''x'' False None
   = getImportPaths (world [''/home/u/.buddy/pools/pool/x.txt''] [] [] []) ''pool'' ''x'' ''x'' False None
   \<and> map_sum id sourcePath
       (getImportPaths (world [''/home/u/.buddy/pools/pool/x.txt''] [] [] []) ''pool'' ''x'' ''x'' False None)
     = Inr (Some ''/home/u/.buddy/pools/pool/x.txt'')"
  (is "?ex \<and> ?bad \<and> ?absent \<and> ?load \<and> ?paths \<and> ?found")
proof -
  let ?w1 = "world [''/home/u/.buddy/pools/pool/.buddy/config.json'',
                    ''/home/u/.buddy/pools/pool/x.txt''] [] [] []"
  let ?w2 = "world [''/home/u/.buddy/pools/pool/x.txt''] [] [] []"
  let ?root = "''/home/u/.buddy/pools/pool''"
  have ex: ?ex by code_simp
  have bad: ?bad by code_simp
  have absent: ?absent by code_simp
  have same_world:
    "?root = path_join [getBuddyBasePath ?w1 None, ''pools'', ''pool'']
     \<and> ?root = path_join [getBuddyBasePath ?w2 None, ''pools'', ''pool'']
     \<and> cwd ?w1 = cwd ?w2
     \<and> (\<forall>c \<in> set (spec_candidates (path_join [?root, []]) ''x'' None).
            file_exists ?w1 c = file_exists ?w2 c)"
    by code_simp
  note inst = malformed_config_same_as_absent[OF ex bad absent, where repo = "''pool''"
            and apath = "''x''" and fname = "''x''" and proj = False]
  have load: ?load using inst by blast
  have paths: ?paths using inst same_world by blast
  have found: ?found by code_simp
  show ?thesis by (intro conjI ex bad absent load paths found)
qed

text \<open>
  C9 as stated fails: a field of the wrong shape is not replaced by its default. A
  number for \<open>agents\<close> and a boolean for \<open>extension\<close> are kept as they are.
\<close>

theorem config_wrong_shape_kept:
  "agents (loadBuddyConfigFrom
      (world [''/p/.buddy/config.json'']
         [(''/p/.buddy/config.json'', JObj [(''agents'', JNum ''5''), (''extension'', JBool True)])]
         [] [])
      ''/p'') = JNum ''5''
   \<and> JNum ''5'' \<noteq> JStr []
   \<and> extension (loadBuddyConfigFrom
      (world [''/p/.buddy/config.json'']
         [(''/p/.buddy/config.json'', JObj [(''agents'', JNum ''5''), (''extension'', JBool True)])]
         [] [])
      ''/p'') = Some (JBool True)"
  by code_simp

text \<open>
  C9 (amended). For every configuration resource that parses, each field is read
  independently. \<open>agents\<close>, \<open>commands\<close> and \<open>context\<close> take their default (\<open>""\<close>,
  \<open>commands\<close>, \<open>shared\<close>) exactly when the field is missing or \<open>null\<close>, and any other value
  is taken as given, whatever its shape. \<open>extension\<close> and \<open>pools\<close> are taken as given,
  absent when missing.
\<close>

theorem config_fields_nullish_defaults:
  assumes ex: "file_exists e (path_join [root, ''.buddy'', ''config.json''])"
      and doc: "file_json e (path_join [root, ''.buddy'', ''config.json'']) = Some d"
  shows "(property d ''agents'' = None \<or> property d ''agents'' = Some JNull
            \<longrightarrow> agents (loadBuddyConfigFrom e root) = JStr [])
       \<and> (\<forall>v. property d ''agents'' = Some v \<and> v \<noteq> JNull
            \<longrightarrow> agents (loadBuddyConfigFrom e root) = v)
       \<and> (property d ''commands'' = None \<or> property d ''commands'' = Some JNull
            \<longrightarrow> commands (loadBuddyConfigFrom e root) = JStr ''commands'')
       \<and> (\<forall>v. property d ''commands'' = Some v \<and> v \<noteq> JNull
            \<longrightarrow> commands (loadBuddyConfigFrom e root) = v)
       \<and> (property d ''context'' = None \<or> property d ''context'' = Some JNull
            \<longrightarrow> context' (loadBuddyConfigFrom e root) = JStr ''shared'')
       \<and> (\<forall>v. property d ''context'' = Some v \<and> v \<noteq> JNull
            \<longrightarrow> context' (loadBuddyConfigFrom e root) = v)
       \<and> extension (loadBuddyConfigFrom e root) = property d ''extension''
       \<and> pools (loadBuddyConfigFrom e root) = property d ''pools''"
  unfolding load_document[OF ex doc]
  using nullish_Some nullish_default by simp

text \<open>A partial configuration: \<open>agents\<close> given, \<open>commands\<close> null, the rest missing.\<close>

theorem config_fields_nullish_defaults_witness:
  "file_exists
      (world [''/p/.buddy/config.json'']
         [(''/p/.buddy/config.json'', JObj [(''agents'', JStr ''agents''), (''commands'', JNull)])]
         [] [])
      (path_join [''/p'', ''.buddy'', ''config.json''])
   \<and> file_json
      (world [''/p/.buddy/config.json'']
         [(''/p/.buddy/config.json'', JObj [(''agents'', JStr ''agents''), (''commands'', JNull)])]
         [] [])
      (path_join [''/p'', ''.buddy'', ''config.json''])
     = Some (JObj [(''agents'', JStr ''agents''), (''commands'', JNull)])
   \<and> agents (loadBuddyConfigFrom
      (world [''/p/.buddy/config.json'']
         [(''/p/.buddy/config.json'', JObj [(''agents'', JStr ''agents''), (''commands'', JNull)])]
         [] [])
      ''/p'') = JStr ''agents''
   \<and> commands (loadBuddyConfigFrom
      (world [''/p/.buddy/config.json'']
         [(''/p/.buddy/config.json'', JObj [(''agents'', JStr ''agents''), (''commands'', JNull)])]
         [] [])
      ''/p'') = JStr ''commands''
   \<and> context' (loadBuddyConfigFrom
      (world [''/p/.buddy/config.json'']
         [(''/p/.buddy/config.json'', JObj [(''agents'', JStr ''agents''), (''commands'', JNull)])]
         [] [])
      ''/p'') = JStr ''shared''
   \<and> extension (loadBuddyConfigFrom
      (world [''/p/.buddy/config.json'']
         [(''/p/.buddy/config.json'', JObj [(''agents'', JStr ''agents''), (''commands'', JNull)])]
         [] [])
      ''/p'') = None"
  (is "?ex \<and> ?doc \<and> ?a \<and> ?c \<and> ?x \<and> ?e")
proof -
  let ?d = "JObj [(''agents'', JStr ''agents''), (''commands'', JNull)]"
  have ex: ?ex by code_simp
  have doc: ?doc by code_simp
  note inst = config_fields_nullish_defaults[OF ex doc]
  have pa: "property ?d ''agents'' = Some (JStr ''agents'') \<and> JStr ''agents'' \<noteq> JNull" by simp
  have pc: "property ?d ''commands'' = Some JNull" by simp
  have px: "property ?d ''context'' = None" by simp
  have pe: "property ?d ''extension'' = None" by simp
  have a: ?a using inst pa by blast
  have c: ?c using inst pc by blast
  have x: ?x using inst px by blast
  have e: ?e using inst pe by simp
  show ?thesis by (intro conjI ex doc a c x e)
qed

section \<open>Acquiring a remote repository\<close>





text \<open>
  Two spellings of one repository that normalise alike: with and without the \<open>.git\<close>
  suffix, and, when neither carries the suffix, in another case.
\<close>

lemma strip_suffix_append: "strip_suffix suf (u @ suf) = u"
  by (simp add: strip_suffix_def ends_with_def)

lemma normalizeUrl_git_suffix:
  "\<not> ends_with u ''.git'' \<Longrightarrow> normalizeUrl e (u @ ''.git'') = normalizeUrl e u"
  unfolding normalizeUrl_def strip_suffix_append by (simp add: strip_suffix_def)

lemma normalizeUrl_case:
  "toLowerCase e u = toLowerCase e v \<Longrightarrow> \<not> ends_with u ''.git'' \<Longrightarrow> \<not> ends_with v ''.git'' \<Longrightarrow>
   normalizeUrl e u = normalizeUrl e v"
  by (simp add: normalizeUrl_def strip_suffix_def)

text \<open>
  When the directory is a clone and the recorded origin, trimmed, stripped of a trailing
  \<open>.git\<close> and then lower-cased, equals the requested URL stripped and lower-cased the same
  way, the run takes the update path: the one version-control command run is the pull,
  in that directory, and no collision is reported.
\<close>

lemma same_origin_pulls:
  assumes name: "repo = (case customName of
                    Some n \<Rightarrow> if n \<noteq> [] then n else extractRepoName e url
                  | None \<Rightarrow> extractRepoName e url)"
      and path: "repoPath = snd (getRepoPaths e repo None)"
      and dir: "directoryExists e repoPath"
      and marker: "file_exists e (path_join [repoPath, ''.git'', ''config''])"
      and origin: "git_origin e repoPath = Inr out"
      and same: "toLowerCase e (strip_suffix ''.git'' (trim e out))
                   = toLowerCase e (strip_suffix ''.git'' url)"
  shows "addFromGitRepo e url customName =
     (case git_pull e repoPath of
        None \<Rightarrow>
          ([Log (''Repository '' @ repo @ '' already exists, pulling latest changes...''),
            GitPull repoPath,
            Log (tick @ '' Repository '' @ repo @ '' added to pool'')], 0)
      | Some err \<Rightarrow>
          ([Log (''Repository '' @ repo @ '' already exists, pulling latest changes...''),
            GitPull repoPath,
            LogError (cross @ '' Failed to clone repository: '' @ err)], 1))"
  using assms
  by (simp add: addFromGitRepo_def normalizeUrl_def Let_def split: option.splits)

text \<open>
  A clone of \<open>https://github.com/Tsal/Buddy.git\<close>, asked for again as
  \<open>https://GitHub.com/tsal/buddy\<close>, is pulled.
\<close>

lemma same_origin_pulls_example:
  "addFromGitRepo
     (world [''/home/u/.buddy/pools/r/.git/config''] [] [''/home/u/.buddy/pools/r'']
        [(''/home/u/.buddy/pools/r'', ''https://github.com/Tsal/Buddy.git'' @ [CHR 0x0A])])
     ''https://GitHub.com/tsal/buddy'' (Some ''r'')
   = ([Log ''Repository r already exists, pulling latest changes...'',
       GitPull ''/home/u/.buddy/pools/r'',
       Log (tick @ '' Repository r added to pool'')], 0)"
proof -
  let ?w = "world [''/home/u/.buddy/pools/r/.git/config''] [] [''/home/u/.buddy/pools/r'']
        [(''/home/u/.buddy/pools/r'', ''https://github.com/Tsal/Buddy.git'' @ [CHR 0x0A])]"
  have name: "''r'' = (case Some ''r'' of
                    Some n \<Rightarrow> if n \<noteq> [] then n else extractRepoName ?w ''https://GitHub.com/tsal/buddy''
                  | None \<Rightarrow> extractRepoName ?w ''https://GitHub.com/tsal/buddy'')"
    by simp
  have path: "''/home/u/.buddy/pools/r'' = snd (getRepoPaths ?w ''r'' None)" by code_simp
  have dir: "directoryExists ?w ''/home/u/.buddy/pools/r''" by code_simp
  have marker: "file_exists ?w (path_join [''/home/u/.buddy/pools/r'', ''.git'', ''config''])"
    by code_simp
  have origin: "git_origin ?w ''/home/u/.buddy/pools/r''
                  = Inr (''https://github.com/Tsal/Buddy.git'' @ [CHR 0x0A])"
    by code_simp
  have same: "toLowerCase ?w (strip_suffix ''.git''
                 (trim ?w (''https://github.com/Tsal/Buddy.git'' @ [CHR 0x0A])))
                = toLowerCase ?w (strip_suffix ''.git'' ''https://GitHub.com/tsal/buddy'')"
    by code_simp
  have pull: "git_pull ?w ''/home/u/.buddy/pools/r'' = None" by code_simp
  show ?thesis
    using same_origin_pulls[OF name path dir marker origin same] pull by simp
qed

text \<open>
  C6. Asking again for the URL a pool was cloned from, in any case or suffix variant,
  should take the update path and never the collision path. The code does not for a
  variant whose suffix is in upper case: it strips a trailing \<open>.git\<close> before it folds
  the case, so \<open>.GIT\<close> is kept and lower-cased, the two URLs normalise differently, and
  the run reports a collision and ends with status 1 without pulling. Here the pool
  \<open>buddy\<close> is a clone of \<open>https://github.com/tsal/buddy.git\<close> and the request is for
  \<open>https://github.com/tsal/buddy.GIT\<close>, which differs from it in case only.
\<close>

theorem upper_suffix_variant_collides:
  "toLowerCase
     (world [''/home/u/.buddy/pools/buddy/.git/config''] [] [''/home/u/.buddy/pools/buddy'']
        [(''/home/u/.buddy/pools/buddy'', ''https://github.com/tsal/buddy.git'')])
     ''https://github.com/tsal/buddy.GIT''
   = toLowerCase
     (world [''/home/u/.buddy/pools/buddy/.git/config''] [] [''/home/u/.buddy/pools/buddy'']
        [(''/home/u/.buddy/pools/buddy'', ''https://github.com/tsal/buddy.git'')])
     ''https://github.com/tsal/buddy.git''
   \<and> directoryExists
     (world [''/home/u/.buddy/pools/buddy/.git/config''] [] [''/home/u/.buddy/pools/buddy'']
        [(''/home/u/.buddy/pools/buddy'', ''https://github.com/tsal/buddy.git'')])
     ''/home/u/.buddy/pools/buddy''
   \<and> file_exists
     (world [''/home/u/.buddy/pools/buddy/.git/config''] [] [''/home/u/.buddy/pools/buddy'']
        [(''/home/u/.buddy/pools/buddy'', ''https://github.com/tsal/buddy.git'')])
     ''/home/u/.buddy/pools/buddy/.git/config''
   \<and> git_origin
     (world [''/home/u/.buddy/pools/buddy/.git/config''] [] [''/home/u/.buddy/pools/buddy'']
        [(''/home/u/.buddy/pools/buddy'', ''https://github.com/tsal/buddy.git'')])
     ''/home/u/.buddy/pools/buddy''
     = Inr ''https://github.com/tsal/buddy.git''
   \<and> normalizeUrl
     (world [''/home/u/.buddy/pools/buddy/.git/config''] [] [''/home/u/.buddy/pools/buddy'']
        [(''/home/u/.buddy/pools/buddy'', ''https://github.com/tsal/buddy.git'')])
     ''https://github.com/tsal/buddy.git'' = ''https://github.com/tsal/buddy''
   \<and> normalizeUrl
     (world [''/home/u/.buddy/pools/buddy/.git/config''] [] [''/home/u/.buddy/pools/buddy'']
        [(''/home/u/.buddy/pools/buddy'', ''https://github.com/tsal/buddy.git'')])
     ''https://github.com/tsal/buddy.GIT'' = ''https://github.com/tsal/buddy.git''
   \<and> addFromGitRepo
     (world [''/home/u/.buddy/pools/buddy/.git/config''] [] [''/home/u/.buddy/pools/buddy'']
        [(''/home/u/.buddy/pools/buddy'', ''https://github.com/tsal/buddy.git'')])
     ''https://github.com/tsal/buddy.GIT'' (Some ''buddy'')
   = ([LogError (cross @ '' Repository name '' @ quote @ ''buddy'' @ quote
                   @ '' already exists in pool''),
       LogError ''   Existing origin: https://github.com/tsal/buddy.git'',
       LogError ''   Requested URL: https://github.com/tsal/buddy.GIT'',
       Log ''   Use --as <different-name> to choose a different name''], 1)"
  by code_simp




text \<open>
  C7 as stated fails: a directory that exists and holds no version-control marker is
  not cloned into; the run fails.
\<close>

theorem unmarked_directory_not_cloned:
  "directoryExists
      (world [''/home/u/.buddy/pools/tools/notes.md''] [] [''/home/u/.buddy/pools/tools''] [])
      ''/home/u/.buddy/pools/tools''
   \<and> \<not> file_exists
      (world [''/home/u/.buddy/pools/tools/notes.md''] [] [''/home/u/.buddy/pools/tools''] [])
      ''/home/u/.buddy/pools/tools/.git/config''
   \<and> addFromGitRepo
      (world [''/home/u/.buddy/pools/tools/notes.md''] [] [''/home/u/.buddy/pools/tools''] [])
      ''https://github.com/tsal/tools.git'' (Some ''tools'')
   = ([LogError (cross @ '' Directory '' @ quote @ ''tools'' @ quote
                   @ '' exists but is not a git repository''),
       Log ''   Remove it manually or use --as <name> to choose a different name''], 1)"
  by code_simp

text \<open>
  C7 (amended). Acquiring into a pool name whose directory does not exist takes the
  fresh-clone action; whenever the directory exists, with or without a marker, nothing
  is cloned. A directory that exists without the marker makes the run fail with the
  report that it is not a git repository.
\<close>

theorem clone_iff_directory_absent:
  assumes name: "repo = (case customName of
                    Some n \<Rightarrow> if n \<noteq> [] then n else extractRepoName e url
                  | None \<Rightarrow> extractRepoName e url)"
      and path: "repoPath = snd (getRepoPaths e repo None)"
  shows "(\<not> directoryExists e repoPath \<longrightarrow>
            addFromGitRepo e url customName =
              (case git_clone e url repoPath of
                 None \<Rightarrow>
                   ([Log (''Cloning repository as '' @ quote @ repo @ quote @ ''...''),
                     GitClone url repoPath,
                     Log (tick @ '' Repository '' @ repo @ '' added to pool'')], 0)
               | Some err \<Rightarrow>
                   ([Log (''Cloning repository as '' @ quote @ repo @ quote @ ''...''),
                     GitClone url repoPath,
                     LogError (cross @ '' Failed to clone repository: '' @ err)], 1)))
       \<and> (directoryExists e repoPath \<longrightarrow>
            (\<forall>u d. GitClone u d \<notin> set (fst (addFromGitRepo e url customName))))
       \<and> (directoryExists e repoPath
            \<and> \<not> file_exists e (path_join [repoPath, ''.git'', ''config''])
          \<longrightarrow> addFromGitRepo e url customName =
                ([LogError (cross @ '' Directory '' @ quote @ repo @ quote
                              @ '' exists but is not a git repository''),
                  Log ''   Remove it manually or use --as <name> to choose a different name''],
                 1))"
  using assms
  by (auto simp: addFromGitRepo_def Let_def split: option.splits sum.splits)

text \<open>With no directory for the pool \<open>tools\<close>, the repository is cloned into it.\<close>

theorem clone_iff_directory_absent_witness:
  "\<not> directoryExists (world [] [] [] []) ''/home/u/.buddy/pools/tools''
   \<and> addFromGitRepo (world [] [] [] []) ''https://github.com/tsal/tools.git'' (Some ''tools'')
   = ([Log (''Cloning repository as '' @ quote @ ''tools'' @ quote @ ''...''),
       GitClone ''https://github.com/tsal/tools.git'' ''/home/u/.buddy/pools/tools'',
       Log (tick @ '' Repository tools added to pool'')], 0)"
  (is "?absent \<and> ?run")
proof -
  let ?w = "world [] [] [] []"
  have name: "''tools'' = (case Some ''tools'' of
                    Some n \<Rightarrow> if n \<noteq> [] then n else extractRepoName ?w ''https://github.com/tsal/tools.git''
                  | None \<Rightarrow> extractRepoName ?w ''https://github.com/tsal/tools.git'')"
    by simp
  have path: "''/home/u/.buddy/pools/tools'' = snd (getRepoPaths ?w ''tools'' None)" by code_simp
  have absent: ?absent by code_simp
  have clone: "git_clone ?w ''https://github.com/tsal/tools.git'' ''/home/u/.buddy/pools/tools'' = None"
    by code_simp
  have ?run
    using clone_iff_directory_absent[OF name path] absent clone by simp
  then show ?thesis using absent by (intro conjI)
qed

section \<open>Reporting a missing artifact\<close>

lemma import_body_not_found:
  assumes "sourcePath paths = None"
  shows "import_body e (Inr paths) apath fname =
     ([LogError (cross @ '' Agent file not found. Tried: ''
         @ join_with '', '' (reported_names
              (if agentsConfigPath paths \<noteq> [] then path_join [agentsConfigPath paths, apath]
               else apath)
              (map_option js_string (extension' paths))))], 0)"
  using assms
  by (cases "extension' paths") (simp_all add: import_body_def Let_def reported_names_def)

lemma toolCommand_not_found:
  assumes ctx: "tool_context e (parseImportSource source) = Inr (ctx, x)"
      and nf: "snd (findAgentFile e ctx (agentPath (parseImportSource source))
                      (map_option js_string x)) = None"
  shows "toolCommand e source =
     ([ErrorRecord (''Context file not found. Tried: ''
         @ join_with '', '' (reported_names (agentPath (parseImportSource source))
                               (map_option js_string x)))], 1)"
  using assms
  by (cases x) (simp_all add: toolCommand_def Let_def reported_names_def)

lemma importCommand_not_found:
  assumes ok: "force \<or> toLowerCase e (filename (parseImportSource source)) \<noteq> ''readme''"
      and cfg: "agents (loadBuddyConfigFrom e
          (path_join [getBuddyBasePath e None, ''pools'', repoName (parseImportSource source)])) = JStr a"
      and ext: "ext = map_option js_string (extension (loadBuddyConfigFrom e
          (path_join [getBuddyBasePath e None, ''pools'', repoName (parseImportSource source)])))"
      and nf: "snd (findAgentFile e
          (path_join [path_join [getBuddyBasePath e None, ''pools'', repoName (parseImportSource source)], a])
          (agentPath (parseImportSource source)) ext) = None"
  shows "importCommand e source proj pers force =
        ([LogError (cross @ '' Agent file not found. Tried: ''
            @ join_with '', '' (reported_names
                 (if a \<noteq> [] then path_join [a, agentPath (parseImportSource source)]
                  else agentPath (parseImportSource source)) ext))], 0)"
proof -
  let ?p = "parseImportSource source"
  have 1: "importLocalAgent e (repoName ?p) (agentPath ?p) (filename ?p) proj =
     ([LogError (cross @ '' Agent file not found. Tried: ''
            @ join_with '', '' (reported_names
                 (if a \<noteq> [] then path_join [a, agentPath ?p] else agentPath ?p) ext))], 0)"
    unfolding importLocalAgent_def getImportPaths_Inr[OF cfg]
    using nf ext by (subst import_body_not_found) simp_all
  have 2: "importToClaudePersonal e (repoName ?p) (agentPath ?p) (filename ?p) =
     ([LogError (cross @ '' Agent file not found. Tried: ''
            @ join_with '', '' (reported_names
                 (if a \<noteq> [] then path_join [a, agentPath ?p] else agentPath ?p) ext))], 0)"
    unfolding importToClaudePersonal_def getImportPathsWithConfig_Inr[OF cfg]
    using nf ext by (subst import_body_not_found) simp_all
  show ?thesis
    using ok 1 2 by (auto simp: importCommand_def Let_def)
qed

lemma spec_candidates_reported:
  "spec_candidates base path ext = map (\<lambda>n. base @ ''/'' @ n) (reported_names path ext)"
  by (cases ext) (simp_all add: spec_candidates_def reported_names_def)

text \<open>
  C4 as stated fails: an import that finds no candidate prints its report and returns;
  the run ends with status 0. The names it prints are relative to the pool, not the
  paths that were asked of the file system.
\<close>

theorem import_not_found_returns_normally:
  "importCommand (world [] [] [] []) ''pool/x'' False False False
     = ([LogError (cross @ '' Agent file not found. Tried: x.md, x.txt, x'')], 0)
   \<and> findAgentFile (world [] [] [] []) ''/home/u/.buddy/pools/pool'' ''x'' None
     = ([''/home/u/.buddy/pools/pool/x.md'', ''/home/u/.buddy/pools/pool/x.txt'',
         ''/home/u/.buddy/pools/pool/x''], None)"
  by code_simp

text \<open>
  C4 (amended). Whenever resolution finds none of the candidates, the program reports
  one name for each candidate tried, in the order tried. For tool the names are the
  candidates relative to the context directory, in one JSON error record, and the run
  ends with status 1. For import the names are relative to the pool root (the configured
  agents directory joined with the relative path), on the error stream, and that report
  is all the command does: nothing is copied. The candidates asked are these names
  under the directory searched.
\<close>

theorem not_found_reports_tried_names:
  "((force \<or> toLowerCase e (filename (parseImportSource source)) \<noteq> ''readme'')
      \<and> agents (loadBuddyConfigFrom e
           (path_join [getBuddyBasePath e None, ''pools'', repoName (parseImportSource source)])) = JStr a
      \<and> ext = map_option js_string (extension (loadBuddyConfigFrom e
           (path_join [getBuddyBasePath e None, ''pools'', repoName (parseImportSource source)])))
      \<and> snd (findAgentFile e
           (path_join [path_join [getBuddyBasePath e None, ''pools'', repoName (parseImportSource source)], a])
           (agentPath (parseImportSource source)) ext) = None
    \<longrightarrow> fst (importCommand e source proj pers force) =
         [LogError (cross @ '' Agent file not found. Tried: ''
            @ join_with '', '' (reported_names
                 (if a \<noteq> [] then path_join [a, agentPath (parseImportSource source)]
                  else agentPath (parseImportSource source)) ext))])
   \<and> (tool_context e (parseImportSource source) = Inr (ctx, x)
      \<and> snd (findAgentFile e ctx (agentPath (parseImportSource source))
                (map_option js_string x)) = None
    \<longrightarrow> toolCommand e source =
         ([ErrorRecord (''Context file not found. Tried: ''
             @ join_with '', '' (reported_names (agentPath (parseImportSource source))
                                   (map_option js_string x)))], 1))
   \<and> spec_candidates base path ext' = map (\<lambda>n. base @ ''/'' @ n) (reported_names path ext')"
proof -
  have "fst (importCommand e source proj pers force) =
         [LogError (cross @ '' Agent file not found. Tried: ''
            @ join_with '', '' (reported_names
                 (if a \<noteq> [] then path_join [a, agentPath (parseImportSource source)]
                  else agentPath (parseImportSource source)) ext))]"
    if "force \<or> toLowerCase e (filename (parseImportSource source)) \<noteq> ''readme''"
      and "agents (loadBuddyConfigFrom e
           (path_join [getBuddyBasePath e None, ''pools'', repoName (parseImportSource source)])) = JStr a"
      and "ext = map_option js_string (extension (loadBuddyConfigFrom e
           (path_join [getBuddyBasePath e None, ''pools'', repoName (parseImportSource source)])))"
      and "snd (findAgentFile e
           (path_join [path_join [getBuddyBasePath e None, ''pools'', repoName (parseImportSource source)], a])
           (agentPath (parseImportSource source)) ext) = None"
    using importCommand_not_found[OF that, of proj pers] by simp
  then show ?thesis
    using toolCommand_not_found[of e source ctx x] spec_candidates_reported[of base path ext']
    by blast
qed

text \<open>
  A pool configured with the agents directory \<open>agents\<close> and the extension \<open>prompt\<close>, and
  no file in it: import and tool both report two names.
\<close>

theorem not_found_reports_tried_names_witness:
  "snd (findAgentFile
          (world [''/home/u/.buddy/pools/pool/.buddy/config.json'']
             [(''/home/u/.buddy/pools/pool/.buddy/config.json'',
               JObj [(''agents'', JStr ''agents''), (''extension'', JStr ''prompt'')])] [] [])
          ''/home/u/.buddy/pools/pool/agents'' ''x'' (Some ''prompt'')) = None
   \<and> fst (importCommand
       (world [''/home/u/.buddy/pools/pool/.buddy/config.json'']
          [(''/home/u/.buddy/pools/pool/.buddy/config.json'',
            JObj [(''agents'', JStr ''agents''), (''extension'', JStr ''prompt'')])] [] [])
       ''pool/x'' True False False)
     = [LogError (cross @ '' Agent file not found. Tried: '' @ ''agents/x.prompt, agents/x'')]
   \<and> toolCommand
       (world [''/home/u/.buddy/pools/pool/.buddy/config.json'']
          [(''/home/u/.buddy/pools/pool/.buddy/config.json'',
            JObj [(''agents'', JStr ''agents''), (''extension'', JStr ''prompt'')])] [] [])
       ''pool/x''
     = ([ErrorRecord (''Context file not found. Tried: '' @ ''x.prompt, x'')], 1)"
  (is "?nf \<and> ?imp \<and> ?tool")
proof -
  let ?w = "world [''/home/u/.buddy/pools/pool/.buddy/config.json'']
             [(''/home/u/.buddy/pools/pool/.buddy/config.json'',
               JObj [(''agents'', JStr ''agents''), (''extension'', JStr ''prompt'')])] [] []"
  let ?p = "parseImportSource ''pool/x''"
  let ?root = "path_join [getBuddyBasePath ?w None, ''pools'', repoName ?p]"
  have nf: ?nf by code_simp
  have prem_import:
    "(False \<or> toLowerCase ?w (filename ?p) \<noteq> ''readme'')
     \<and> agents (loadBuddyConfigFrom ?w ?root) = JStr ''agents''
     \<and> Some ''prompt'' = map_option js_string (extension (loadBuddyConfigFrom ?w ?root))
     \<and> snd (findAgentFile ?w (path_join [?root, ''agents'']) (agentPath ?p) (Some ''prompt'')) = None"
    by code_simp
  have prem_tool:
    "tool_context ?w ?p = Inr (''/home/u/.buddy/pools/pool/shared'', Some (JStr ''prompt''))
     \<and> snd (findAgentFile ?w ''/home/u/.buddy/pools/pool/shared'' (agentPath ?p)
               (map_option js_string (Some (JStr ''prompt'')))) = None"
    by code_simp
  note inst = not_found_reports_tried_names
      [where e = ?w and source = "''pool/x''" and force = False and proj = True and pers = False
         and a = "''agents''" and ext = "Some ''prompt''"
         and ctx = "''/home/u/.buddy/pools/pool/shared''" and x = "Some (JStr ''prompt'')"]
  have "fst (importCommand ?w ''pool/x'' True False False) =
         [LogError (cross @ '' Agent file not found. Tried: ''
            @ join_with '', '' (reported_names
                 (if ''agents'' \<noteq> [] then path_join [''agents'', agentPath ?p]
                  else agentPath ?p) (Some ''prompt'')))]"
    using inst prem_import by blast
  moreover have "join_with '', '' (reported_names
                  (if ''agents'' \<noteq> [] then path_join [''agents'', agentPath ?p]
                   else agentPath ?p) (Some ''prompt'')) = ''agents/x.prompt, agents/x''"
    by code_simp
  ultimately have imp: ?imp by (simp only:)
  have "toolCommand ?w ''pool/x'' =
         ([ErrorRecord (''Context file not found. Tried: ''
             @ join_with '', '' (reported_names (agentPath ?p)
                                   (map_option js_string (Some (JStr ''prompt'')))))], 1)"
    using inst prem_tool by blast
  moreover have "join_with '', '' (reported_names (agentPath ?p)
                     (map_option js_string (Some (JStr ''prompt'')))) = ''x.prompt, x''"
    by code_simp
  ultimately have tool: ?tool by (simp only:)
  show ?thesis by (intro conjI nf imp tool)
qed

section \<open>The destination of an import\<close>

lemma import_body_writes:
  "WriteFile f c \<in> set (fst (import_body e r apath fname)) \<Longrightarrow>
   \<exists>paths. r = Inr paths \<and> f = destPath paths"
  by (auto simp: import_body_def Let_def promptOverwrite_def copyFile_def
           split: sum.splits option.splits if_splits)

lemma getImportPaths_dest:
  "getImportPaths e repo apath fname proj None = Inr paths \<Longrightarrow>
   destPath paths = (if proj then path_join [cwd e, ''.claude'', ''agents'', fname @ ''.md'']
                     else path_join [cwd e, fname @ ''.md''])"
  by (auto simp: getImportPaths_def Let_def split: json.splits)

lemma getImportPathsWithConfig_dest:
  "getImportPathsWithConfig e repo apath fname proj pers None = Inr paths \<Longrightarrow>
   destPath paths = (if pers then path_join [homedir e, ''.claude'', ''agents'', fname @ ''.md'']
                     else if proj then path_join [cwd e, ''.claude'', ''agents'', fname @ ''.md'']
                     else path_join [cwd e, fname @ ''.md''])"
  by (auto simp: getImportPathsWithConfig_def Let_def split: json.splits)

text \<open>
  C10. Whatever an import writes, it writes to the leaf name with \<open>.md\<close> appended, in
  the destination directory the flags select: \<open>~/.claude/agents\<close>, \<open>.claude/agents\<close> under
  the working directory, or the working directory. The candidate the source resolved to
  plays no part. The last segment of the path written is the leaf name with \<open>.md\<close>.
\<close>

theorem import_destination_name:
  "WriteFile f c \<in> set (fst (importCommand e source proj pers force)) \<longrightarrow>
     f = path_join ((if pers then [homedir e, ''.claude'', ''agents'']
                     else if proj then [cwd e, ''.claude'', ''agents'']
                     else [cwd e]) @ [filename (parseImportSource source) @ ''.md''])
     \<and> (\<exists>d. f = d @ filename (parseImportSource source) @ ''.md'' \<and> (d = [] \<or> last d = CHR ''/''))"
proof
  let ?p = "parseImportSource source"
  let ?dir = "if pers then [homedir e, ''.claude'', ''agents'']
              else if proj then [cwd e, ''.claude'', ''agents''] else [cwd e]"
  assume w: "WriteFile f c \<in> set (fst (importCommand e source proj pers force))"
  have f: "f = path_join (?dir @ [filename ?p @ ''.md''])"
  proof (cases pers)
    case True
    then have "WriteFile f c
        \<in> set (fst (importToClaudePersonal e (repoName ?p) (agentPath ?p) (filename ?p)))"
      using w by (auto simp: importCommand_def Let_def split: if_splits)
    then obtain paths where
      "getImportPathsWithConfig e (repoName ?p) (agentPath ?p) (filename ?p) False True None = Inr paths"
      "f = destPath paths"
      unfolding importToClaudePersonal_def by (blast dest: import_body_writes)
    then show ?thesis using True getImportPathsWithConfig_dest by fastforce
  next
    case False
    then have "WriteFile f c
        \<in> set (fst (importLocalAgent e (repoName ?p) (agentPath ?p) (filename ?p) proj))"
      using w by (auto simp: importCommand_def Let_def split: if_splits)
    then obtain paths where
      "getImportPaths e (repoName ?p) (agentPath ?p) (filename ?p) proj None = Inr paths"
      "f = destPath paths"
      unfolding importLocalAgent_def by (blast dest: import_body_writes)
    then show ?thesis using False getImportPaths_dest by fastforce
  qed
  have leaf: "filename ?p \<noteq> []" "CHR ''/'' \<notin> set (filename ?p)"
    using filename_leaf[of source] by simp_all
  have "\<exists>d. path_join (?dir @ [filename ?p @ ''.md'']) = d @ (filename ?p @ ''.md'')
            \<and> (d = [] \<or> last d = CHR ''/'')"
  proof (rule path_join_last_segment)
    show "filename ?p @ ''.md'' \<noteq> []" by simp
    show "CHR ''/'' \<notin> set (filename ?p @ ''.md'')" using leaf by simp
    show "filename ?p @ ''.md'' \<noteq> ''.''" using leaf by (cases "filename ?p") auto
    show "filename ?p @ ''.md'' \<noteq> ''..''" using leaf by (cases "filename ?p") auto
  qed
  then show "f = path_join (?dir @ [filename ?p @ ''.md''])
     \<and> (\<exists>d. f = d @ filename ?p @ ''.md'' \<and> (d = [] \<or> last d = CHR ''/''))"
    using f by simp
qed

text \<open>
  A source that exists only as \<open>x.txt\<close> is copied to \<open>x.md\<close>: in the working directory
  without a flag, under \<open>~/.claude/agents\<close> with the personal flag.
\<close>

theorem import_destination_name_witness:
  "importCommand (world [''/home/u/.buddy/pools/pool/x.txt''] [] [] []) ''pool/x'' False False False
     = ([WriteFile ''/work/x.md'' ''text'', Log (tick @ '' Imported x.md to current directory'')], 0)
   \<and> importCommand (world [''/home/u/.buddy/pools/pool/x.txt''] [] [] []) ''pool/x'' False True False
     = ([WriteFile ''/home/u/.claude/agents/x.md'' ''text'',
         Log (tick @ '' Imported x.md to ~/.claude/agents/'')], 0)"
  (is "?cwd \<and> ?personal")
proof -
  let ?w = "world [''/home/u/.buddy/pools/pool/x.txt''] [] [] []"
  have a: ?cwd by code_simp
  have b: ?personal by code_simp
  have "WriteFile ''/work/x.md'' ''text'' \<in> set (fst (importCommand ?w ''pool/x'' False False False))"
    unfolding a by simp
  then have "''/work/x.md'' = path_join ([cwd ?w] @ [filename (parseImportSource ''pool/x'') @ ''.md''])"
    using import_destination_name[of "''/work/x.md''" "''text''" ?w "''pool/x''" False False False]
    by simp
  then show ?thesis using a b by (intro conjI)
qed

section \<open>The roots of the local pool\<close>

lemma add_body_writes:
  "WriteFile f c \<in> set (fst (add_body e src dst name missing origin what)) \<Longrightarrow> f = dst"
  by (auto simp: add_body_def Let_def promptOverwrite_def copyFile_def
           split: if_splits sum.splits option.splits)

text \<open>
  C5 as stated fails: the agents of the pool \<open>local\<close> live in the pool's root itself,
  not in a sub-directory \<open>agents\<close>. Listing looks there, and adding writes there.
\<close>

theorem local_agent_root_is_pool_root:
  "list_target (world [] [] [] []) ''local'' False False
     = Inr (''/home/u/.buddy/pools/local'', ''agents'')
   \<and> ''/home/u/.buddy/pools/local'' \<noteq> path_join [''/home/u/.buddy'', ''pools'', ''local'', ''agents'']
   \<and> buddyDestPath (getAddPaths (world [] [] [] []) ''helper'' None)
     = ''/home/u/.buddy/pools/local/helper.md''"
  by code_simp

text \<open>
  C5 (amended). For the pool \<open>local\<close>, add, list and tool use fixed roots, whatever any
  configuration says: agents in the pool's root itself, commands in its sub-directory
  \<open>commands\<close>, shared context in its sub-directory \<open>shared\<close> (searched by tool with no
  configured extension). Import searches the pool's root when the pool has no
  configuration resource.
\<close>

theorem local_pool_roots:
  "(\<forall>f c. WriteFile f c \<in> set (fst (addClaudeProjectAgent e n))
        \<longrightarrow> f = path_join [path_join [getBuddyBasePath e None, ''pools'', ''local''], n @ ''.md''])
   \<and> (\<forall>f c. WriteFile f c \<in> set (fst (addClaudePersonalAgent e n))
        \<longrightarrow> f = path_join [path_join [getBuddyBasePath e None, ''pools'', ''local''], n @ ''.md''])
   \<and> (\<forall>f c. WriteFile f c \<in> set (fst (addClaudeCommand e n))
        \<longrightarrow> f = path_join [path_join [getBuddyBasePath e None, ''pools'', ''local'', ''commands''],
                           n @ ''.md''])
   \<and> (\<forall>f c. WriteFile f c \<in> set (fst (addClaudeShared e n))
        \<longrightarrow> f = path_join [path_join [getBuddyBasePath e None, ''pools'', ''local'', ''shared''],
                           n @ ''.md''])
   \<and> list_target e ''local'' False False
        = Inr (path_join [getBuddyBasePath e None, ''pools'', ''local''], ''agents'')
   \<and> list_target e ''local'' True sh
        = Inr (path_join [path_join [getBuddyBasePath e None, ''pools'', ''local''], ''commands''],
               ''commands'')
   \<and> list_target e ''local'' False True
        = Inr (path_join [path_join [getBuddyBasePath e None, ''pools'', ''local''], ''shared''],
               ''shared context'')
   \<and> (repoName p = ''local''
        \<longrightarrow> tool_context e p
            = Inr (path_join [getBuddyBasePath e None, ''pools'', ''local'', ''shared''], None))
   \<and> (\<not> file_exists e (path_join [path_join [getBuddyBasePath e None, ''pools'', ''local''],
                                    ''.buddy'', ''config.json''])
        \<longrightarrow> map_sum id sourcePath (getImportPaths e ''local'' apath fname proj None)
            = Inr (snd (findAgentFile e
                          (path_join [path_join [getBuddyBasePath e None, ''pools'', ''local''], []])
                          apath None)))"
proof (intro conjI allI impI)
  fix f c
  assume "WriteFile f c \<in> set (fst (addClaudeProjectAgent e n))"
  then show "f = path_join [path_join [getBuddyBasePath e None, ''pools'', ''local''], n @ ''.md'']"
    by (auto simp: addClaudeProjectAgent_def getAddPaths_def Let_def dest: add_body_writes)
next
  fix f c
  assume "WriteFile f c \<in> set (fst (addClaudePersonalAgent e n))"
  then show "f = path_join [path_join [getBuddyBasePath e None, ''pools'', ''local''], n @ ''.md'']"
    by (auto simp: addClaudePersonalAgent_def getAddPathsWithConfig_def Let_def dest: add_body_writes)
next
  fix f c
  assume "WriteFile f c \<in> set (fst (addClaudeCommand e n))"
  then show "f = path_join [path_join [getBuddyBasePath e None, ''pools'', ''local'', ''commands''],
                            n @ ''.md'']"
    by (auto simp: addClaudeCommand_def Let_def dest: add_body_writes)
next
  fix f c
  assume "WriteFile f c \<in> set (fst (addClaudeShared e n))"
  then show "f = path_join [path_join [getBuddyBasePath e None, ''pools'', ''local'', ''shared''],
                            n @ ''.md'']"
    by (auto simp: addClaudeShared_def Let_def dest: add_body_writes)
next
  show "list_target e ''local'' False False
        = Inr (path_join [getBuddyBasePath e None, ''pools'', ''local''], ''agents'')"
    by (simp add: list_target_def Let_def)
next
  show "list_target e ''local'' True sh
        = Inr (path_join [path_join [getBuddyBasePath e None, ''pools'', ''local''], ''commands''],
               ''commands'')"
    by (simp add: list_target_def Let_def)
next
  show "list_target e ''local'' False True
        = Inr (path_join [path_join [getBuddyBasePath e None, ''pools'', ''local''], ''shared''],
               ''shared context'')"
    by (simp add: list_target_def Let_def)
next
  assume "repoName p = ''local''"
  then show "tool_context e p
      = Inr (path_join [getBuddyBasePath e None, ''pools'', ''local'', ''shared''], None)"
    by (simp add: tool_context_def Let_def)
next
  assume "\<not> file_exists e (path_join [path_join [getBuddyBasePath e None, ''pools'', ''local''],
                                    ''.buddy'', ''config.json''])"
  then have "loadBuddyConfigFrom e (path_join [getBuddyBasePath e None, ''pools'', ''local''])
               = BuddyConfig_new"
    by (rule load_absent)
  then show "map_sum id sourcePath (getImportPaths e ''local'' apath fname proj None)
            = Inr (snd (findAgentFile e
                          (path_join [path_join [getBuddyBasePath e None, ''pools'', ''local''], []])
                          apath None))"
    by (simp add: getImportPaths_default)
qed

text \<open>
  Adding the command \<open>buddy\<close> writes it under \<open>commands\<close> of the local pool; listing its
  shared context looks under \<open>shared\<close>; tool looks there too; importing \<open>local/helper\<close>
  finds \<open>helper.md\<close> in the pool's root.
\<close>

theorem local_pool_roots_witness:
  "addClaudeCommand
      (world [''/work/.claude/commands/buddy.md'', ''/home/u/.buddy/pools/local/helper.md''] [] [] [])
      ''buddy''
     = ([WriteFile ''/home/u/.buddy/pools/local/commands/buddy.md'' ''text'',
         Log (tick @ '' Copied buddy.md from Claude project to pool'')], 0)
   \<and> list_target
      (world [''/work/.claude/commands/buddy.md'', ''/home/u/.buddy/pools/local/helper.md''] [] [] [])
      ''local'' False True
     = Inr (''/home/u/.buddy/pools/local/shared'', ''shared context'')
   \<and> tool_context
      (world [''/work/.claude/commands/buddy.md'', ''/home/u/.buddy/pools/local/helper.md''] [] [] [])
      (parseImportSource ''local/claude-init'')
     = Inr (''/home/u/.buddy/pools/local/shared'', None)
   \<and> \<not> file_exists
      (world [''/work/.claude/commands/buddy.md'', ''/home/u/.buddy/pools/local/helper.md''] [] [] [])
      ''/home/u/.buddy/pools/local/.buddy/config.json''
   \<and> map_sum id sourcePath
       (getImportPaths
          (world [''/work/.claude/commands/buddy.md'', ''/home/u/.buddy/pools/local/helper.md''] [] [] [])
          ''local'' ''helper'' ''helper'' False None)
     = Inr (Some ''/home/u/.buddy/pools/local/helper.md'')"
  (is "?add \<and> ?list \<and> ?tool \<and> ?nocfg \<and> ?imp")
proof -
  let ?w = "world [''/work/.claude/commands/buddy.md'',
                   ''/home/u/.buddy/pools/local/helper.md''] [] [] []"
  let ?p = "parseImportSource ''local/claude-init''"
  note inst = local_pool_roots
      [where e = ?w and n = "''buddy''" and p = ?p
         and apath = "''helper''" and fname = "''helper''" and proj = False and sh = False]
  have add: ?add by code_simp
  have nocfg: ?nocfg by code_simp
  have "list_target ?w ''local'' False True
        = Inr (path_join [path_join [getBuddyBasePath ?w None, ''pools'', ''local''], ''shared''],
               ''shared context'')"
    using inst by blast
  moreover have "path_join [path_join [getBuddyBasePath ?w None, ''pools'', ''local''], ''shared'']
                   = ''/home/u/.buddy/pools/local/shared''"
    by code_simp
  ultimately have list: ?list by (simp only:)
  have "repoName ?p = ''local''" by code_simp
  then have "tool_context ?w ?p
            = Inr (path_join [getBuddyBasePath ?w None, ''pools'', ''local'', ''shared''], None)"
    using inst by blast
  moreover have "path_join [getBuddyBasePath ?w None, ''pools'', ''local'', ''shared'']
                   = ''/home/u/.buddy/pools/local/shared''"
    by code_simp
  ultimately have tool: ?tool by (simp only:)
  have "\<not> file_exists ?w (path_join [path_join [getBuddyBasePath ?w None, ''pools'', ''local''],
                                    ''.buddy'', ''config.json''])"
    by code_simp
  then have "map_sum id sourcePath (getImportPaths ?w ''local'' ''helper'' ''helper'' False None)
            = Inr (snd (findAgentFile ?w
                          (path_join [path_join [getBuddyBasePath ?w None, ''pools'', ''local''], []])
                          ''helper'' None))"
    using inst by blast
  moreover have "snd (findAgentFile ?w
                          (path_join [path_join [getBuddyBasePath ?w None, ''pools'', ''local''], []])
                          ''helper'' None) = Some ''/home/u/.buddy/pools/local/helper.md''"
    by code_simp
  ultimately have imp: ?imp by (simp only:)
  show ?thesis by (intro conjI add list tool nocfg imp)
qed

end
